theory Spec2Isabelle
  imports Main
begin

section \<open>Constants and data of the app lifecycle (src/create_app.ts)\<close>

text \<open>
  Modelled from the spec: the module \<^verbatim>\<open>./constants\<close> is imported by
  \<^verbatim>\<open>create_app.ts\<close> but is not among the sources. The three enumerations
  below list the members that \<^verbatim>\<open>create_app.ts\<close> refers to, under the names
  of the spec's state machine (section 4.1) and of its notification channels (section 6);
  the members of one enumeration are pairwise different values.
\<close>

datatype appStates =
    NOT_LOADED
  | LOADING_SOURCE_CODE
  | LOAD_SOURCE_FINISHED
  | LOAD_SOURCE_ERROR
  | MOUNTING
  | MOUNTED
  | UNMOUNT

datatype keepAliveStates = KEEP_ALIVE_SHOW | KEEP_ALIVE_HIDDEN

datatype lifeCycles =
    LC_BEFOREMOUNT
  | LC_MOUNTED
  | LC_UNMOUNT
  | LC_ERROR
  | LC_AFTERHIDDEN
  | LC_AFTERSHOW

text \<open>
  Objects of the host page are represented by their identity: a DOM node
  (\<^verbatim>\<open>HTMLElement | ShadowRoot\<close>), a function exported by a sub-application
  (\<^verbatim>\<open>Func\<close>), and the address of a \<^verbatim>\<open>CreateApp\<close> instance.
  \<^verbatim>\<open>null\<close> and \<^verbatim>\<open>undefined\<close> are both \<open>None\<close>.
\<close>

type_synonym element = nat
type_synonym func = nat
type_synonym ref = nat

text \<open>The sandbox created by \<^verbatim>\<open>new SandBox(name, url, macro)\<close>.\<close>

datatype sandbox = SandBox string string bool

text \<open>
  \<^verbatim>\<open>sourceType\<close>: the two maps are only handed to imported functions, so
  they are kept as their lists of keys; \<^verbatim>\<open>html\<close> is absent until loading
  completes.
\<close>

record sourceType =
  links :: "string list"
  scripts :: "string list"
  html :: "element option"

text \<open>The fields of \<^verbatim>\<open>class CreateApp\<close>, in the order of their declaration.\<close>

record CreateApp =
  state :: appStates
  keepAliveState :: "keepAliveStates option"
  keepAliveContainer :: "element option"
  loadSourceLevel :: int
  umdHookMount :: "func option"
  umdHookUnmount :: "func option"
  libraryName :: "string option"
  umdMode :: bool
  isPrefetch :: bool
  name :: string
  url :: string
  ssrUrl :: string
  container :: "element option"
  inline :: bool
  scopecss :: bool
  useSandbox :: bool
  macro :: bool
  baseroute :: string
  source :: sourceType
  sandBox :: "sandbox option"

text \<open>\<^verbatim>\<open>interface CreateAppParam\<close>; an optional member is an \<open>option\<close>.\<close>

record CreateAppParam =
  p_name :: string
  p_url :: string
  p_ssrUrl :: "string option"
  p_scopecss :: bool
  p_useSandbox :: bool
  p_macro :: "bool option"
  p_inline :: "bool option"
  p_baseroute :: "string option"
  p_container :: "element option"

subsection \<open>What a sub-application's code can answer\<close>

text \<open>
  The value a UMD hook hands back is only inspected by \<^verbatim>\<open>isPromise\<close>: it is a
  promise or it is anything else (including \<^verbatim>\<open>undefined\<close>, the initial value
  of the local variable that receives it). A call of a hook either throws or returns
  such a value.
\<close>

datatype hook_result = NotPromise | Promise

datatype hook_behaviour = Throws | Returns hook_result

text \<open>
  The value found under the library name on the (proxied) global object, when
  \<^verbatim>\<open>typeof\<close> of it is \<^verbatim>\<open>'object'\<close>: it is \<^verbatim>\<open>null\<close>, or it is an
  object, of which \<^verbatim>\<open>mount\<close> reads the members \<^verbatim>\<open>mount\<close> and
  \<^verbatim>\<open>unmount\<close>, present when they are functions.
\<close>

record umd_library =
  lib_mount :: "func option"
  lib_unmount :: "func option"

datatype js_object = Null | Obj umd_library

text \<open>
  What one completion callback of \<^verbatim>\<open>execScripts\<close> finds: the
  \<^verbatim>\<open>library\<close> attribute of the root container (read only when there is a
  container), the global object as a lookup under a library name (\<open>None\<close> when
  \<^verbatim>\<open>typeof\<close> of the entry is not \<^verbatim>\<open>'object'\<close>), and what the mount hook
  does if it is called.
\<close>

record probe =
  library_attr :: "string option"
  global_lookup :: "string \<Rightarrow> js_object option"
  mount_hook :: hook_behaviour

subsection \<open>The world: objects, registry, closures, pending promises, trace\<close>

text \<open>
  The local variables \<^verbatim>\<open>hasDispatchMountedEvent\<close> and
  \<^verbatim>\<open>umdHookMountResult\<close> of one call of \<^verbatim>\<open>mount\<close>, shared by all
  completion callbacks of that call.
\<close>

record mount_closure =
  hasDispatchMountedEvent :: bool
  umdHookMountResult :: hook_result

text \<open>
  A continuation registered on a promise: \<^verbatim>\<open>.then(dispatchMountedEvent).catch(onerror)\<close>
  in \<^verbatim>\<open>handleMounted\<close>, and
  \<^verbatim>\<open>.then(actionsForUnmount(destroy)).catch(actionsForUnmount(destroy))\<close> in
  \<^verbatim>\<open>handleUnmounted\<close>.
\<close>

datatype continuation = Cont_mounted ref | Cont_unmounted ref bool

text \<open>
  The trace records, in order, every call of an imported function or of a sandbox
  method, every call of a hook, every assignment to \<^verbatim>\<open>this.state\<close>, and the
  entry of the methods that the properties below count. An imported function or a
  sandbox method is taken to return without raising, and it and the hooks are taken
  not to call back into the instance while they run; what a hook answers is a
  parameter of the method that calls it.
\<close>

datatype event =
    Set_state ref appStates
  | Enter_mount ref
  | Enter_handleMounted ref
  | Enter_actionsForUnmount ref bool
  | E_extractHtml ref
  | E_dispatchLifecyclesEvent "element option" string lifeCycles
  | E_dispatchCustomEventToMicroApp string string "string option"
  | E_cloneContainer "element option" "element option" bool
  | E_createElement_div element
  | E_execScripts ref nat
  | E_sandBox_start string
  | E_sandBox_stop
  | E_recordUmdSnapshot
  | E_rebuildUmdSnapshot
  | E_call_hook func
  | E_logError string string
  | E_clear_innerHTML element
  | E_delete_window "string option"

text \<open>
  \<^verbatim>\<open>appInstanceMap\<close> is a \<^verbatim>\<open>Map\<close>: an association list, in insertion
  order, of app names and the addresses of their instances. Instances live in
  \<open>objs\<close> whether or not the registry still refers to them.
\<close>

record world =
  objs :: "ref \<Rightarrow> CreateApp"
  appInstanceMap :: "(string \<times> ref) list"
  closures :: "mount_closure list"
  pending :: "continuation list"
  events :: "event list"

datatype outcome = Returned | TypeError

definition emit :: "event \<Rightarrow> world \<Rightarrow> world" where
  "emit e w = w\<lparr>events := events w @ [e]\<rparr>"

definition upd :: "ref \<Rightarrow> (CreateApp \<Rightarrow> CreateApp) \<Rightarrow> world \<Rightarrow> world" where
  "upd this f w = w\<lparr>objs := (objs w)(this := f (objs w this))\<rparr>"

definition set_state :: "ref \<Rightarrow> appStates \<Rightarrow> world \<Rightarrow> world" where
  "set_state this s w = emit (Set_state this s) (upd this (\<lambda>a. a\<lparr>state := s\<rparr>) w)"

text \<open>\<^verbatim>\<open>this.sandBox?.m()\<close>: the call happens only when there is a sandbox.\<close>

definition sandBox_call :: "ref \<Rightarrow> event \<Rightarrow> world \<Rightarrow> world" where
  "sandBox_call this e w = (case sandBox (objs w this) of None \<Rightarrow> w | Some _ \<Rightarrow> emit e w)"

section \<open>The methods of CreateApp\<close>

text \<open>\<^verbatim>\<open>onerror\<close>: reports on the container, changes nothing.\<close>

definition onerror :: "ref \<Rightarrow> world \<Rightarrow> world" where
  "onerror this w =
     emit (E_dispatchLifecyclesEvent (container (objs w this)) (name (objs w this)) LC_ERROR) w"

definition loadSourceCode :: "ref \<Rightarrow> world \<Rightarrow> world" where
  "loadSourceCode this w = emit (E_extractHtml this) (set_state this LOADING_SOURCE_CODE w)"

text \<open>
  The constructor, building the instance at the fresh address \<open>this\<close>. The sandbox is
  created after \<^verbatim>\<open>loadSourceCode\<close> has been called.
\<close>

definition new_CreateApp :: "ref \<Rightarrow> CreateAppParam \<Rightarrow> world \<Rightarrow> world" where
  "new_CreateApp this p w =
     (let a = \<lparr> state = NOT_LOADED, keepAliveState = None, keepAliveContainer = None,
                 loadSourceLevel = 0, umdHookMount = None, umdHookUnmount = None,
                 libraryName = None, umdMode = False, isPrefetch = False,
                 name = p_name p, url = p_url p,
                 ssrUrl = (case p_ssrUrl p of None \<Rightarrow> [] | Some s \<Rightarrow> s),
                 container = p_container p,
                 inline = (case p_inline p of None \<Rightarrow> False | Some b \<Rightarrow> b),
                 scopecss = (p_useSandbox p \<and> p_scopecss p),
                 useSandbox = p_useSandbox p,
                 macro = (case p_macro p of None \<Rightarrow> False | Some b \<Rightarrow> b),
                 baseroute = (case p_baseroute p of None \<Rightarrow> [] | Some s \<Rightarrow> s),
                 source = \<lparr> links = [], scripts = [], html = None \<rparr>,
                 sandBox = None \<rparr>;
          w1 = loadSourceCode this (w\<lparr>objs := (objs w)(this := a)\<rparr>)
      in if useSandbox (objs w1 this)
         then upd this (\<lambda>a. a\<lparr>sandBox :=
                Some (SandBox (p_name p) (p_url p) (macro a))\<rparr>) w1
         else w1)"

text \<open>\<^verbatim>\<open>dispatchMountedEvent\<close>: guarded by the state not being UNMOUNT.\<close>

definition dispatchMountedEvent :: "ref \<Rightarrow> world \<Rightarrow> world" where
  "dispatchMountedEvent this w =
     (if state (objs w this) \<noteq> UNMOUNT
      then (let w1 = set_state this MOUNTED w
            in emit (E_dispatchLifecyclesEvent (container (objs w1 this))
                       (name (objs w1 this)) LC_MOUNTED) w1)
      else w)"

text \<open>
  \<^verbatim>\<open>handleMounted\<close>: a promise gets the continuation registered, anything else
  dispatches at once.
\<close>

definition handleMounted :: "ref \<Rightarrow> hook_result \<Rightarrow> world \<Rightarrow> world" where
  "handleMounted this r w0 =
     (let w = emit (Enter_handleMounted this) w0
      in case r of
           Promise \<Rightarrow> w\<lparr>pending := pending w @ [Cont_mounted this]\<rparr>
         | NotPromise \<Rightarrow> dispatchMountedEvent this w)"

text \<open>
  The branch of \<^verbatim>\<open>mount\<close> for an app already known to be UMD (the
  \<^verbatim>\<open>else\<close> of \<^verbatim>\<open>if (!this.umdMode)\<close>). Calling a hook that is
  \<^verbatim>\<open>null\<close> raises inside the \<^verbatim>\<open>try\<close> and is logged like a hook that throws.
\<close>

definition mount_umd :: "ref \<Rightarrow> hook_behaviour \<Rightarrow> world \<Rightarrow> world" where
  "mount_umd this hb w0 =
     (let w = sandBox_call this E_rebuildUmdSnapshot w0;
          a = objs w this
      in case umdHookMount a of
           None \<Rightarrow> handleMounted this NotPromise
                     (emit (E_logError ''an error occurred in the mount function'' (name a)) w)
         | Some f \<Rightarrow>
             (let w1 = emit (E_call_hook f) w
              in case hb of
                   Throws \<Rightarrow> handleMounted this NotPromise
                     (emit (E_logError ''an error occurred in the mount function'' (name a)) w1)
                 | Returns r \<Rightarrow> handleMounted this r w1))"

text \<open>
  The branch of \<^verbatim>\<open>mount\<close> for an app not known to be UMD: a fresh closure
  holds the two local variables, and \<^verbatim>\<open>execScripts\<close> receives the callback
  bound to it. \<^verbatim>\<open>mount\<close> does nothing after this call, so a callback made
  during the call is the same as one made right after \<^verbatim>\<open>mount\<close> returns.
\<close>

definition mount_exec :: "ref \<Rightarrow> world \<Rightarrow> world" where
  "mount_exec this w =
     emit (E_execScripts this (length (closures w)))
       (w\<lparr>closures := closures w @
            [\<lparr> hasDispatchMountedEvent = False, umdHookMountResult = NotPromise \<rparr>]\<rparr>)"

text \<open>
  The head of \<^verbatim>\<open>mount\<close>: the arguments are adopted. \<^verbatim>\<open>inline\<close> is
  assigned when it is a boolean that differs from the field, the container only when
  the field is \<^verbatim>\<open>null\<close>, and \<^verbatim>\<open>baseroute\<close> when it is given.
\<close>

definition mount_args ::
  "ref \<Rightarrow> element option \<Rightarrow> bool option \<Rightarrow> string option \<Rightarrow> world \<Rightarrow> world" where
  "mount_args this container' inline' baseroute' w1 =
     (let w2 = (case inline' of
                  None \<Rightarrow> w1
                | Some b \<Rightarrow> if b \<noteq> inline (objs w1 this)
                            then upd this (\<lambda>a. a\<lparr>inline := b\<rparr>) w1 else w1);
          w3 = upd this (\<lambda>a. a\<lparr>container :=
                 (case container a of Some c \<Rightarrow> Some c | None \<Rightarrow> container')\<rparr>) w2
      in upd this (\<lambda>a. a\<lparr>baseroute :=
                 (case baseroute' of Some b \<Rightarrow> b | None \<Rightarrow> baseroute a)\<rparr>) w3)"

text \<open>
  The tail of \<^verbatim>\<open>mount\<close>, after the guard on \<^verbatim>\<open>loadSourceLevel\<close>.
  \<open>hb\<close> is what the cached mount hook does if this call reaches it.
\<close>

definition mount_run :: "ref \<Rightarrow> hook_behaviour \<Rightarrow> world \<Rightarrow> world" where
  "mount_run this hb w4 =
     (let w5 = emit (E_dispatchLifecyclesEvent (container (objs w4 this))
                  (name (objs w4 this)) LC_BEFOREMOUNT) w4;
          w6 = set_state this MOUNTING w5;
          w7 = emit (E_cloneContainer (html (source (objs w6 this)))
                  (container (objs w6 this)) (\<not> umdMode (objs w6 this))) w6;
          w8 = sandBox_call this (E_sandBox_start (baseroute (objs w7 this))) w7
      in if \<not> umdMode (objs w8 this) then mount_exec this w8
         else mount_umd this hb w8)"

text \<open>\<^verbatim>\<open>mount(container?, inline?, baseroute?)\<close>.\<close>

definition mount ::
  "ref \<Rightarrow> element option \<Rightarrow> bool option \<Rightarrow> string option \<Rightarrow> hook_behaviour \<Rightarrow> world \<Rightarrow> world" where
  "mount this container' inline' baseroute' hb w0 =
     (let w4 = mount_args this container' inline' baseroute' (emit (Enter_mount this) w0)
      in if loadSourceLevel (objs w4 this) \<noteq> 2
         then set_state this LOADING_SOURCE_CODE w4
         else mount_run this hb w4)"

text \<open>\<^verbatim>\<open>onLoad(html)\<close>: the counter is incremented before it is compared.\<close>

definition onLoad :: "ref \<Rightarrow> element \<Rightarrow> hook_behaviour \<Rightarrow> world \<Rightarrow> world" where
  "onLoad this h hb w =
     (let w1 = upd this (\<lambda>a. a\<lparr>loadSourceLevel := loadSourceLevel a + 1\<rparr>) w
      in if loadSourceLevel (objs w1 this) = 2
         then
           (let w2 = upd this (\<lambda>a. a\<lparr>source := (source a)\<lparr>html := Some h\<rparr>\<rparr>) w1
            in if isPrefetch (objs w2 this) \<or> UNMOUNT = state (objs w2 this)
               then w2
               else mount this None None None hb (set_state this LOAD_SOURCE_FINISHED w2))
         else w1)"

definition onLoadError :: "ref \<Rightarrow> world \<Rightarrow> world" where
  "onLoadError this w =
     (let w1 = upd this (\<lambda>a. a\<lparr>loadSourceLevel := - 1\<rparr>) w
      in if UNMOUNT \<noteq> state (objs w1 this)
         then set_state this LOAD_SOURCE_ERROR (onerror this w1)
         else w1)"

text \<open>
  \<^verbatim>\<open>getUmdLibraryHooks\<close>: after \<^verbatim>\<open>execScripts\<close> the app may be
  unmounted, and then the empty object is returned and \<^verbatim>\<open>libraryName\<close> is
  left alone. Otherwise the attribute is read from the root container:
  \<^verbatim>\<open>getRootContainer\<close> is imported and hands back the root of the container it is
  given, so with a container that is \<^verbatim>\<open>null\<close> the call of
  \<^verbatim>\<open>getAttribute\<close> raises a TypeError before anything is assigned (the result
  \<open>None\<close>). \<^verbatim>\<open>||\<close> takes the default name for a missing and for an empty
  attribute. An entry whose \<^verbatim>\<open>typeof\<close> is \<^verbatim>\<open>'object'\<close> is returned as
  it is, \<^verbatim>\<open>null\<close> included; for any other entry the empty object is returned.
\<close>

definition getUmdLibraryHooks :: "ref \<Rightarrow> probe \<Rightarrow> world \<Rightarrow> (world \<times> js_object) option" where
  "getUmdLibraryHooks this pr w =
     (if UNMOUNT \<noteq> state (objs w this)
      then
        (case container (objs w this) of
           None \<Rightarrow> None
         | Some c \<Rightarrow>
             (let ln = (case library_attr pr of
                          None \<Rightarrow> ''micro-app-'' @ name (objs w this)
                        | Some s \<Rightarrow> if s \<noteq> [] then s
                                    else ''micro-app-'' @ name (objs w this));
                  w1 = upd this (\<lambda>a. a\<lparr>libraryName := Some ln\<rparr>) w
              in Some (w1, case global_lookup pr ln of
                             Some v \<Rightarrow> v
                           | None \<Rightarrow> Obj \<lparr> lib_mount = None, lib_unmount = None \<rparr>)))
      else Some (w, Obj \<lparr> lib_mount = None, lib_unmount = None \<rparr>))"

text \<open>
  The first half of the completion callback (the body of
  \<^verbatim>\<open>if (!this.umdMode)\<close> inside it), for the closure at index \<open>cid\<close>. It
  raises when \<^verbatim>\<open>getUmdLibraryHooks\<close> raises, and when that returns
  \<^verbatim>\<open>null\<close>, which \<^verbatim>\<open>const { mount, unmount } = ...\<close> cannot destructure.
  The call of the mount hook is inside \<^verbatim>\<open>try\<close>.
\<close>

definition detect_umd :: "ref \<Rightarrow> nat \<Rightarrow> probe \<Rightarrow> world \<Rightarrow> world \<times> outcome" where
  "detect_umd this cid pr w0 =
     (case getUmdLibraryHooks this pr w0 of
        None \<Rightarrow> (w0, TypeError)
      | Some (w, v) \<Rightarrow>
          (case v of
             Null \<Rightarrow> (w, TypeError)
           | Obj lib \<Rightarrow>
               (case lib_mount lib of
                  None \<Rightarrow> (w, Returned)
                | Some m \<Rightarrow>
                    (case lib_unmount lib of
                       None \<Rightarrow> (w, Returned)
                     | Some u \<Rightarrow>
                         (let w1 = upd this (\<lambda>a. a\<lparr>umdHookMount := Some m,
                                      umdHookUnmount := Some u, umdMode := True\<rparr>) w;
                              w2 = sandBox_call this E_recordUmdSnapshot w1;
                              w3 = emit (E_call_hook m) w2
                          in case mount_hook pr of
                               Throws \<Rightarrow>
                                 (emit (E_logError ''an error occurred in the mount function''
                                          (name (objs w3 this))) w3, Returned)
                             | Returns r \<Rightarrow>
                                 (w3\<lparr>closures := (closures w3)
                                       [cid := (closures w3 ! cid)\<lparr>umdHookMountResult := r\<rparr>]\<rparr>,
                                  Returned))))))"

text \<open>
  The completion callback that \<^verbatim>\<open>mount\<close> hands to \<^verbatim>\<open>execScripts\<close>,
  called with \<open>isFinished\<close>. When its first half raises, the test of
  \<^verbatim>\<open>hasDispatchMountedEvent\<close> is not reached. A callback exists only for a
  closure that a \<^verbatim>\<open>mount\<close> has created, so an index beyond the closures is no
  call at all.
\<close>

definition execScripts_callback ::
  "ref \<Rightarrow> nat \<Rightarrow> bool \<Rightarrow> probe \<Rightarrow> world \<Rightarrow> world \<times> outcome" where
  "execScripts_callback this cid isFinished pr w0 =
     (if cid < length (closures w0)
      then
        (case (if \<not> umdMode (objs w0 this) then detect_umd this cid pr w0
               else (w0, Returned)) of
           (w1, TypeError) \<Rightarrow> (w1, TypeError)
         | (w1, Returned) \<Rightarrow>
             (let c = closures w1 ! cid
              in if \<not> hasDispatchMountedEvent c \<and> (isFinished \<or> umdMode (objs w1 this))
                 then (handleMounted this (umdHookMountResult c)
                         (w1\<lparr>closures := (closures w1)
                              [cid := c\<lparr>hasDispatchMountedEvent := True\<rparr>]\<rparr>),
                       Returned)
                 else (w1, Returned)))
      else (w0, Returned))"

text \<open>\<^verbatim>\<open>actionsForCompletelyDestory\<close>: \<^verbatim>\<open>Map.delete\<close> drops the key.\<close>

definition actionsForCompletelyDestory :: "ref \<Rightarrow> world \<Rightarrow> world" where
  "actionsForCompletelyDestory this w =
     (let a = objs w this;
          w1 = (if \<not> useSandbox a \<and> umdMode a then emit (E_delete_window (libraryName a)) w
                else w)
      in w1\<lparr>appInstanceMap := filter (\<lambda>(k, r). k \<noteq> name a) (appInstanceMap w1)\<rparr>)"

text \<open>
  \<^verbatim>\<open>actionsForUnmount(destroy)\<close>. \<open>cnt\<close> is the
  \<^verbatim>\<open>childElementCount\<close> of the container, should it be read. Reading a
  property of, or assigning \<^verbatim>\<open>innerHTML\<close> on, a container that is
  \<^verbatim>\<open>null\<close> raises a TypeError; what was done before stays done.
\<close>

definition actionsForUnmount :: "ref \<Rightarrow> bool \<Rightarrow> nat \<Rightarrow> world \<Rightarrow> world \<times> outcome" where
  "actionsForUnmount this destroy cnt w0 =
     (let w1 = emit (Enter_actionsForUnmount this destroy) w0;
          w2 = emit (E_dispatchLifecyclesEvent (container (objs w1 this))
                  (name (objs w1 this)) LC_UNMOUNT) w1;
          w3 = sandBox_call this E_sandBox_stop w2;
          a = objs w3 this;
          r = (if destroy then Some (actionsForCompletelyDestory this w3)
               else if umdMode a
               then (case container a of
                       None \<Rightarrow> None
                     | Some c \<Rightarrow>
                         if cnt \<noteq> 0
                         then Some (emit (E_cloneContainer (Some c) (html (source a)) False) w3)
                         else Some w3)
               else Some w3)
      in case r of
           None \<Rightarrow> (w3, TypeError)
         | Some w4 \<Rightarrow>
             (case container (objs w4 this) of
                None \<Rightarrow> (w4, TypeError)
              | Some c \<Rightarrow>
                  (upd this (\<lambda>a. a\<lparr>container := None\<rparr>) (emit (E_clear_innerHTML c) w4),
                   Returned)))"

text \<open>\<^verbatim>\<open>handleUnmounted(destroy, umdHookUnmountResult)\<close>.\<close>

definition handleUnmounted ::
  "ref \<Rightarrow> bool \<Rightarrow> hook_result \<Rightarrow> nat \<Rightarrow> world \<Rightarrow> world \<times> outcome" where
  "handleUnmounted this destroy r cnt w =
     (case r of
        Promise \<Rightarrow> (w\<lparr>pending := pending w @ [Cont_unmounted this destroy]\<rparr>, Returned)
      | NotPromise \<Rightarrow> actionsForUnmount this destroy cnt w)"

text \<open>
  \<^verbatim>\<open>unmount(destroy)\<close>. \<open>hb\<close> is what the UMD unmount hook does if it is
  called, \<open>cnt\<close> the child count of the container if it is read.
\<close>

definition unmount :: "ref \<Rightarrow> bool \<Rightarrow> hook_behaviour \<Rightarrow> nat \<Rightarrow> world \<Rightarrow> world \<times> outcome" where
  "unmount this destroy hb cnt w0 =
     (let destroy' = (if state (objs w0 this) = LOAD_SOURCE_ERROR then True else destroy);
          w1 = set_state this UNMOUNT w0;
          w2 = upd this (\<lambda>a. a\<lparr>keepAliveState := None\<rparr>) w1;
          a = objs w2 this
      in case umdHookUnmount a of
           None \<Rightarrow>
             handleUnmounted this destroy' NotPromise cnt
               (emit (E_dispatchCustomEventToMicroApp ''unmount'' (name a) None) w2)
         | Some f \<Rightarrow>
             (let w3 = emit (E_call_hook f) w2
              in case hb of
                   Throws \<Rightarrow>
                     handleUnmounted this destroy' NotPromise cnt
                       (emit (E_dispatchCustomEventToMicroApp ''unmount'' (name a) None)
                          (emit (E_logError ''an error occurred in the unmount function''
                                   (name a)) w3))
                 | Returns r \<Rightarrow>
                     handleUnmounted this destroy' r cnt
                       (emit (E_dispatchCustomEventToMicroApp ''unmount'' (name a) None) w3)))"

text \<open>
  A registered continuation runs when its promise settles. With
  \<^verbatim>\<open>p.then(f).catch(g)\<close>, a fulfilled \<open>p\<close> runs \<open>f\<close>, and \<open>g\<close> only if
  \<open>f\<close> raises; a rejected \<open>p\<close> runs \<open>g\<close>.
\<close>

fun run_continuation :: "continuation \<Rightarrow> bool \<Rightarrow> nat \<Rightarrow> world \<Rightarrow> world \<times> outcome" where
  "run_continuation (Cont_mounted this) fulfilled cnt w =
     (if fulfilled then (dispatchMountedEvent this w, Returned)
      else (onerror this w, Returned))"
| "run_continuation (Cont_unmounted this destroy) fulfilled cnt w =
     (if fulfilled
      then (case actionsForUnmount this destroy cnt w of
              (w1, Returned) \<Rightarrow> (w1, Returned)
            | (w1, TypeError) \<Rightarrow> actionsForUnmount this destroy cnt w1)
      else actionsForUnmount this destroy cnt w)"

text \<open>The \<open>i\<close>-th pending promise settles: its continuation leaves the list and runs.\<close>

definition settle :: "nat \<Rightarrow> bool \<Rightarrow> nat \<Rightarrow> world \<Rightarrow> world \<times> outcome" where
  "settle i fulfilled cnt w =
     (if i < length (pending w)
      then run_continuation (pending w ! i) fulfilled cnt
             (w\<lparr>pending := take i (pending w) @ drop (Suc i) (pending w)\<rparr>)
      else (w, Returned))"

text \<open>
  \<^verbatim>\<open>hiddenKeepAliveApp\<close> and \<^verbatim>\<open>showKeepAliveApp\<close>. \<open>fresh\<close> is the
  element that \<^verbatim>\<open>document.createElement('div')\<close> returns if it is called.
\<close>

definition hiddenKeepAliveApp :: "ref \<Rightarrow> element \<Rightarrow> world \<Rightarrow> world" where
  "hiddenKeepAliveApp this fresh w0 =
     (let w1 = upd this (\<lambda>a. a\<lparr>keepAliveState := Some KEEP_ALIVE_HIDDEN\<rparr>) w0;
          a = objs w1 this;
          w2 = emit (E_dispatchLifecyclesEvent (container a) (name a) LC_AFTERHIDDEN) w1;
          w3 = emit (E_dispatchCustomEventToMicroApp ''appstate-change'' (name a)
                  (Some ''afterhidden'')) w2;
          w4 = (case keepAliveContainer a of
                  Some k \<Rightarrow> w3
                | None \<Rightarrow> upd this (\<lambda>a. a\<lparr>keepAliveContainer := Some fresh\<rparr>)
                            (emit (E_createElement_div fresh) w3));
          w5 = emit (E_cloneContainer (container a) (keepAliveContainer (objs w4 this)) False) w4
      in upd this (\<lambda>a. a\<lparr>container := keepAliveContainer a\<rparr>) w5)"

definition showKeepAliveApp :: "ref \<Rightarrow> element \<Rightarrow> world \<Rightarrow> world" where
  "showKeepAliveApp this container' w0 =
     (let w1 = upd this (\<lambda>a. a\<lparr>keepAliveState := Some KEEP_ALIVE_SHOW\<rparr>) w0;
          a = objs w1 this;
          w2 = emit (E_cloneContainer (keepAliveContainer a) (Some container') False) w1;
          w3 = upd this (\<lambda>a. a\<lparr>container := Some container'\<rparr>) w2;
          w4 = emit (E_dispatchLifecyclesEvent (Some container') (name a) LC_AFTERSHOW) w3
      in emit (E_dispatchCustomEventToMicroApp ''appstate-change'' (name a)
                 (Some ''aftershow'')) w4)"

definition getAppState :: "ref \<Rightarrow> world \<Rightarrow> appStates" where
  "getAppState this w = state (objs w this)"

definition getKeepAliveState :: "ref \<Rightarrow> world \<Rightarrow> keepAliveStates option" where
  "getKeepAliveState this w = keepAliveState (objs w this)"

section \<open>The registry functions\<close>

text \<open>
  \<^verbatim>\<open>getActiveApps\<close>: \<^verbatim>\<open>forEach\<close> visits the entries in insertion order and
  pushes the key of each app that is neither unmounted nor a prefetch.
\<close>

definition getActiveApps :: "world \<Rightarrow> string list" where
  "getActiveApps w =
     map fst (filter (\<lambda>(appName, app).
                UNMOUNT \<noteq> getAppState app w \<and> \<not> isPrefetch (objs w app)) (appInstanceMap w))"

definition getAllApps :: "world \<Rightarrow> string list" where
  "getAllApps w = map fst (appInstanceMap w)"

section \<open>The router glue (src/sandbox/router/index.ts)\<close>

text \<open>
  The functions of \<^verbatim>\<open>index.ts\<close> only combine functions imported from
  \<^verbatim>\<open>./core\<close>, \<^verbatim>\<open>./location\<close>, \<^verbatim>\<open>./history\<close> and
  \<^verbatim>\<open>../../libs/utils\<close>, none of which is among the sources. They are taken as
  parameters, with the arguments and results that \<^verbatim>\<open>index.ts\<close> gives them:
  a function that reads \<^verbatim>\<open>globalEnv.rawWindow\<close> takes the browser as an
  argument, \<^verbatim>\<open>updateLocation\<close> changes the location object it is given, and
  \<^verbatim>\<open>updateBrowserURL\<close> changes the browser. \<open>'loc\<close> is the type
  \<^verbatim>\<open>MicroLocation\<close> and \<open>'st\<close> the type of \<^verbatim>\<open>history.state\<close>.
\<close>

record 'st rawWindow =
  location_href :: string
  history_state :: 'st

text \<open>The members of the result of \<^verbatim>\<open>createURL\<close> that \<^verbatim>\<open>index.ts\<close> reads.\<close>

record URL =
  pathname :: string
  search :: string
  hash :: string

text \<open>The result of \<^verbatim>\<open>setMicroPathToURL\<close>.\<close>

record HandleMicroPathResult =
  fullPath :: string
  searchHash :: string

text \<open>
  \<^verbatim>\<open>getMicroPathFromURL\<close> returns \<^verbatim>\<open>string | null\<close>: the decoded
  segment of the app in the browser URL, or \<^verbatim>\<open>null\<close> when the URL has none.
  \<^verbatim>\<open>setMicroState\<close> is always called with \<^verbatim>\<open>null\<close> as its third
  argument, which is left out.
\<close>

record ('loc, 'st) router_imports =
  getMicroPathFromURL :: "string \<Rightarrow> 'st rawWindow \<Rightarrow> string option"
  setMicroPathToURL :: "string \<Rightarrow> 'loc \<Rightarrow> 'st rawWindow \<Rightarrow> HandleMicroPathResult"
  removeMicroPathFromURL :: "string \<Rightarrow> 'st rawWindow \<Rightarrow> string"
  removeMicroState :: "string \<Rightarrow> 'st \<Rightarrow> string \<Rightarrow> 'st"
  setMicroState :: "string \<Rightarrow> 'st \<Rightarrow> string \<Rightarrow> string \<Rightarrow> 'st"
  updateLocation :: "string \<Rightarrow> string \<Rightarrow> string \<Rightarrow> 'loc \<Rightarrow> 'loc"
  updateBrowserURL :: "'st \<Rightarrow> string \<Rightarrow> 'st rawWindow \<Rightarrow> 'st rawWindow"
  createURL :: "string \<Rightarrow> URL"

text \<open>
  Each function takes and returns the pair of the app's location object and the
  browser.
\<close>

definition updateBrowserURLWithLocation ::
  "('loc, 'st) router_imports \<Rightarrow> string \<Rightarrow> string \<Rightarrow> 'loc \<times> 'st rawWindow \<Rightarrow> 'loc \<times> 'st rawWindow" where
  "updateBrowserURLWithLocation I appName url' s =
     (case s of (microLocation, b) \<Rightarrow>
        (let setMicroPathResult = setMicroPathToURL I appName microLocation b
         in (microLocation,
             updateBrowserURL I
               (setMicroState I appName (history_state b) url' (searchHash setMicroPathResult))
               (fullPath setMicroPathResult) b)))"

text \<open>\<^verbatim>\<open>if (microPath)\<close> holds for a string that is not empty.\<close>

definition initRouteStateWithURL ::
  "('loc, 'st) router_imports \<Rightarrow> string \<Rightarrow> string \<Rightarrow> 'loc \<times> 'st rawWindow \<Rightarrow> 'loc \<times> 'st rawWindow" where
  "initRouteStateWithURL I appName url' s =
     (case s of (microLocation, b) \<Rightarrow>
        (case getMicroPathFromURL I appName b of
           None \<Rightarrow> updateBrowserURLWithLocation I appName url' s
         | Some microPath \<Rightarrow>
             if microPath \<noteq> []
             then (updateLocation I appName microPath url' microLocation, b)
             else updateBrowserURLWithLocation I appName url' s))"

definition removeStateAndPathFromBrowser ::
  "('loc, 'st) router_imports \<Rightarrow> string \<Rightarrow> string \<Rightarrow> 'st rawWindow \<Rightarrow> 'st rawWindow" where
  "removeStateAndPathFromBrowser I appName url' b =
     updateBrowserURL I (removeMicroState I appName (history_state b) url')
       (removeMicroPathFromURL I appName b) b"

definition clearRouteStateFromURL ::
  "('loc, 'st) router_imports \<Rightarrow> string \<Rightarrow> string \<Rightarrow> bool \<Rightarrow> 'loc \<times> 'st rawWindow
     \<Rightarrow> 'loc \<times> 'st rawWindow" where
  "clearRouteStateFromURL I appName url' keepRouteState s =
     (case s of (microLocation, b) \<Rightarrow>
        (let microLocation' =
               (if \<not> keepRouteState
                then (let u = createURL I url'
                      in updateLocation I appName (pathname u @ search u @ hash u) url'
                           microLocation)
                else microLocation)
         in (microLocation', removeStateAndPathFromBrowser I appName url' b)))"

section \<open>Auxiliary definitions for the properties\<close>

text \<open>A sequence of \<^verbatim>\<open>onLoad\<close> calls on one instance, in order.\<close>

fun onLoads :: "ref \<Rightarrow> (element \<times> hook_behaviour) list \<Rightarrow> world \<Rightarrow> world" where
  "onLoads this [] w = w"
| "onLoads this ((h, hb) # hs) w = onLoads this hs (onLoad this h hb w)"

text \<open>How often \<^verbatim>\<open>mount\<close> has been entered on an instance, read off the trace.\<close>

definition mount_calls :: "ref \<Rightarrow> world \<Rightarrow> nat" where
  "mount_calls this w = count_list (events w) (Enter_mount this)"

text \<open>
  The instance as it is once \<^verbatim>\<open>mount\<close> has adopted its arguments, the value
  that reaches \<^verbatim>\<open>handleMounted\<close> in the UMD branch, and the trace of the hook
  call there.
\<close>

definition adopted ::
  "CreateApp \<Rightarrow> element option \<Rightarrow> bool option \<Rightarrow> string option \<Rightarrow> CreateApp" where
  "adopted a c i b = a
      \<lparr>inline := (case i of None \<Rightarrow> inline a | Some v \<Rightarrow> v),
       container := (case container a of Some c' \<Rightarrow> Some c' | None \<Rightarrow> c),
       baseroute := (case b of None \<Rightarrow> baseroute a | Some s \<Rightarrow> s)\<rparr>"

definition umd_hook_result :: "func option \<Rightarrow> hook_behaviour \<Rightarrow> hook_result" where
  "umd_hook_result f hb =
     (case f of None \<Rightarrow> NotPromise
      | Some _ \<Rightarrow> (case hb of Throws \<Rightarrow> NotPromise | Returns r \<Rightarrow> r))"

definition umd_hook_events :: "func option \<Rightarrow> hook_behaviour \<Rightarrow> string \<Rightarrow> event list" where
  "umd_hook_events f hb n =
     (case f of None \<Rightarrow> [E_logError ''an error occurred in the mount function'' n]
      | Some g \<Rightarrow> (case hb of
           Throws \<Rightarrow> [E_call_hook g, E_logError ''an error occurred in the mount function'' n]
         | Returns r \<Rightarrow> [E_call_hook g]))"

text \<open>
  The trace of one run of \<^verbatim>\<open>actionsForUnmount\<close> on the instance \<open>a\<close>, the trace
  of the call of the UMD unmount hook, and the world as \<^verbatim>\<open>unmount\<close> hands it to
  \<^verbatim>\<open>handleUnmounted\<close>.
\<close>

definition teardown_events :: "ref \<Rightarrow> bool \<Rightarrow> nat \<Rightarrow> CreateApp \<Rightarrow> event list" where
  "teardown_events this d cnt a =
     [Enter_actionsForUnmount this d, E_dispatchLifecyclesEvent (container a) (name a) LC_UNMOUNT]
     @ (if sandBox a = None then [] else [E_sandBox_stop])
     @ (if d then (if \<not> useSandbox a \<and> umdMode a then [E_delete_window (libraryName a)] else [])
        else (case container a of
                None \<Rightarrow> []
              | Some c \<Rightarrow> if umdMode a \<and> cnt \<noteq> 0
                          then [E_cloneContainer (Some c) (html (source a)) False] else []))
     @ (case container a of None \<Rightarrow> [] | Some c \<Rightarrow> [E_clear_innerHTML c])"

definition unmount_hook_events :: "func option \<Rightarrow> hook_behaviour \<Rightarrow> string \<Rightarrow> event list" where
  "unmount_hook_events f hb n =
     (case f of None \<Rightarrow> []
      | Some g \<Rightarrow> (case hb of
           Throws \<Rightarrow> [E_call_hook g, E_logError ''an error occurred in the unmount function'' n]
         | Returns r \<Rightarrow> [E_call_hook g]))"

definition before_teardown :: "ref \<Rightarrow> hook_behaviour \<Rightarrow> world \<Rightarrow> world" where
  "before_teardown this hb w =
     w\<lparr>objs := (objs w)(this := (objs w this)\<lparr>state := UNMOUNT, keepAliveState := None\<rparr>),
       events := events w @ Set_state this UNMOUNT #
         unmount_hook_events (umdHookUnmount (objs w this)) hb (name (objs w this)) @
         [E_dispatchCustomEventToMicroApp ''unmount'' (name (objs w this)) None]\<rparr>"

text \<open>How often the final teardown has been entered with a given flag, read off the trace.\<close>

definition teardowns :: "ref \<Rightarrow> bool \<Rightarrow> world \<Rightarrow> nat" where
  "teardowns this d w = count_list (events w) (Enter_actionsForUnmount this d)"





subsection \<open>Example inputs\<close>

text \<open>
  The app of the spec's scenarios: \<open>app1\<close> at \<open>http://a.test/index.html\<close>, built by
  the constructor at address 0 with a sandbox and the container 7, and registered by
  its caller.
\<close>

definition no_app :: CreateApp where
  "no_app = \<lparr> state = NOT_LOADED, keepAliveState = None, keepAliveContainer = None,
               loadSourceLevel = 0, umdHookMount = None, umdHookUnmount = None,
               libraryName = None, umdMode = False, isPrefetch = False,
               name = [], url = [], ssrUrl = [], container = None, inline = False,
               scopecss = False, useSandbox = False, macro = False, baseroute = [],
               source = \<lparr> links = [], scripts = [], html = None \<rparr>, sandBox = None \<rparr>"

definition world0 :: world where
  "world0 = \<lparr> objs = (\<lambda>_. no_app), appInstanceMap = [], closures = [], pending = [],
               events = [] \<rparr>"

definition app1_param :: CreateAppParam where
  "app1_param = \<lparr> p_name = ''app1'', p_url = ''http://a.test/index.html'', p_ssrUrl = None,
                   p_scopecss = True, p_useSandbox = True, p_macro = None, p_inline = None,
                   p_baseroute = None, p_container = Some 7 \<rparr>"

definition world1 :: world where
  "world1 = (new_CreateApp 0 app1_param world0)\<lparr>appInstanceMap := [(''app1'', 0)]\<rparr>"

text \<open>
  A second app, \<open>app2\<close>, built at address 1 without a container and flagged as a
  prefetch by its caller before it is registered.
\<close>

definition app2_param :: CreateAppParam where
  "app2_param = \<lparr> p_name = ''app2'', p_url = ''http://b.test/index.html'', p_ssrUrl = None,
                   p_scopecss = True, p_useSandbox = True, p_macro = None, p_inline = None,
                   p_baseroute = None, p_container = None \<rparr>"

definition world2 :: world where
  "world2 = (upd 1 (\<lambda>a. a\<lparr>isPrefetch := True\<rparr>) (new_CreateApp 1 app2_param world1))
              \<lparr>appInstanceMap := [(''app1'', 0), (''app2'', 1)]\<rparr>"

text \<open>
  A probe that finds, under the default library name of \<open>app1\<close>, an object whose
  \<^verbatim>\<open>mount\<close> and \<^verbatim>\<open>unmount\<close> are the functions 1 and 2; and \<open>app1\<close>
  after both resource channels have completed and the first completion callback of
  \<^verbatim>\<open>execScripts\<close> has detected that library.
\<close>

definition probe_umd :: probe where
  "probe_umd = \<lparr> library_attr = None,
                  global_lookup = (\<lambda>s. if s = ''micro-app-app1''
                                       then Some (Obj \<lparr> lib_mount = Some 1,
                                                        lib_unmount = Some 2 \<rparr>)
                                       else None),
                  mount_hook = Returns NotPromise \<rparr>"

definition world3 :: world where
  "world3 = fst (execScripts_callback 0 0 True probe_umd
              (onLoads 0 [(5, Returns NotPromise), (5, Returns NotPromise)] world1))"






text \<open>
  An example instance of the functions that the router glue imports, for evaluating
  it on concrete inputs. It follows the encoding that the spec describes (a query
  parameter keyed by the app's name whose value is the app's pathname, search and
  hash): the browser URL is the empty string or one query \<open>?name=path\<close>,
  \<^verbatim>\<open>history.state\<close> is an association list from app names to the recorded
  path, and a location is split at the first \<open>?\<close> and \<open>#\<close>.
\<close>

definition split_path :: "string \<Rightarrow> URL" where
  "split_path p =
     (let rest = dropWhile (\<lambda>c. c \<noteq> CHR ''?'' \<and> c \<noteq> CHR ''#'') p
      in \<lparr> pathname = takeWhile (\<lambda>c. c \<noteq> CHR ''?'' \<and> c \<noteq> CHR ''#'') p,
           search = takeWhile (\<lambda>c. c \<noteq> CHR ''#'') rest,
           hash = dropWhile (\<lambda>c. c \<noteq> CHR ''#'') rest \<rparr>)"

definition example_imports :: "(URL, (string \<times> string) list) router_imports" where
  "example_imports =
     \<lparr> getMicroPathFromURL = (\<lambda>n b.
          if take (length n + 2) (location_href b) = ''?'' @ n @ ''=''
          then Some (drop (length n + 2) (location_href b)) else None),
       setMicroPathToURL = (\<lambda>n loc b.
          \<lparr> fullPath = ''?'' @ n @ ''='' @ pathname loc @ search loc @ hash loc,
            searchHash = ''?'' @ n @ ''='' @ pathname loc @ search loc @ hash loc \<rparr>),
       removeMicroPathFromURL = (\<lambda>n b.
          if take (length n + 2) (location_href b) = ''?'' @ n @ ''=''
          then [] else location_href b),
       removeMicroState = (\<lambda>n st u. filter (\<lambda>(k, v). k \<noteq> n) st),
       setMicroState = (\<lambda>n st u sh. (n, sh) # filter (\<lambda>(k, v). k \<noteq> n) st),
       updateLocation = (\<lambda>n p base loc. split_path p),
       updateBrowserURL = (\<lambda>st p b. \<lparr> location_href = p, history_state = st \<rparr>),
       createURL = split_path \<rparr>"

definition home :: URL where
  "home = \<lparr> pathname = ''/home'', search = [], hash = [] \<rparr>"

section \<open>Basic facts about the operations\<close>

lemma emit_simps [simp]:
  "events (emit e w) = events w @ [e]"
  "objs (emit e w) = objs w"
  "appInstanceMap (emit e w) = appInstanceMap w"
  "closures (emit e w) = closures w"
  "pending (emit e w) = pending w"
  by (simp_all add: emit_def)

lemma upd_simps [simp]:
  "objs (upd this f w) = (objs w)(this := f (objs w this))"
  "events (upd this f w) = events w"
  "appInstanceMap (upd this f w) = appInstanceMap w"
  "closures (upd this f w) = closures w"
  "pending (upd this f w) = pending w"
  by (simp_all add: upd_def)

lemma set_state_simps [simp]:
  "objs (set_state this s w) = (objs w)(this := (objs w this)\<lparr>state := s\<rparr>)"
  "events (set_state this s w) = events w @ [Set_state this s]"
  "appInstanceMap (set_state this s w) = appInstanceMap w"
  "closures (set_state this s w) = closures w"
  "pending (set_state this s w) = pending w"
  by (simp_all add: set_state_def)

lemma sandBox_call_simps [simp]:
  "objs (sandBox_call this e w) = objs w"
  "events (sandBox_call this e w) = events w @ (if sandBox (objs w this) = None then [] else [e])"
  "appInstanceMap (sandBox_call this e w) = appInstanceMap w"
  "closures (sandBox_call this e w) = closures w"
  "pending (sandBox_call this e w) = pending w"
  by (simp_all add: sandBox_call_def split: option.splits)






lemma mount_umd_eq:
  "mount_umd this hb w =
     handleMounted this (umd_hook_result (umdHookMount (objs w this)) hb)
       (w\<lparr>events := events w @ (if sandBox (objs w this) = None then [] else [E_rebuildUmdSnapshot])
            @ umd_hook_events (umdHookMount (objs w this)) hb (name (objs w this))\<rparr>)"
  by (cases "umdHookMount (objs w this)"; cases hb; cases "sandBox (objs w this)";
      simp add: mount_umd_def Let_def umd_hook_result_def umd_hook_events_def emit_def
        sandBox_call_def)


lemma handleMounted_eq:
  "handleMounted this r w =
     (if r = Promise
      then w\<lparr>pending := pending w @ [Cont_mounted this],
             events := events w @ [Enter_handleMounted this]\<rparr>
      else if state (objs w this) \<noteq> UNMOUNT
      then w\<lparr>objs := (objs w)(this := (objs w this)\<lparr>state := MOUNTED\<rparr>),
             events := events w @ [Enter_handleMounted this, Set_state this MOUNTED,
               E_dispatchLifecyclesEvent (container (objs w this)) (name (objs w this)) LC_MOUNTED]\<rparr>
      else w\<lparr>events := events w @ [Enter_handleMounted this]\<rparr>)"
  by (cases r; simp add: handleMounted_def dispatchMountedEvent_def Let_def emit_def set_state_def
      upd_def)

lemma mount_run_exec:
  "\<not> umdMode (objs w this) \<Longrightarrow>
   mount_run this hb w =
     w\<lparr>objs := (objs w)(this := (objs w this)\<lparr>state := MOUNTING\<rparr>),
       closures := closures w @
         [\<lparr> hasDispatchMountedEvent = False, umdHookMountResult = NotPromise \<rparr>],
       events := events w @
         [E_dispatchLifecyclesEvent (container (objs w this)) (name (objs w this)) LC_BEFOREMOUNT,
          Set_state this MOUNTING,
          E_cloneContainer (html (source (objs w this))) (container (objs w this)) True]
         @ (if sandBox (objs w this) = None then []
            else [E_sandBox_start (baseroute (objs w this))])
         @ [E_execScripts this (length (closures w))]\<rparr>"
  by (cases "sandBox (objs w this)";
      simp add: mount_run_def Let_def mount_exec_def emit_def set_state_def upd_def sandBox_call_def)

lemma mount_run_umd:
  "umdMode (objs w this) \<Longrightarrow>
   mount_run this hb w =
     handleMounted this (umd_hook_result (umdHookMount (objs w this)) hb)
     (w\<lparr>objs := (objs w)(this := (objs w this)\<lparr>state := MOUNTING\<rparr>),
       events := events w @
         [E_dispatchLifecyclesEvent (container (objs w this)) (name (objs w this)) LC_BEFOREMOUNT,
          Set_state this MOUNTING,
          E_cloneContainer (html (source (objs w this))) (container (objs w this)) False]
         @ (if sandBox (objs w this) = None then []
            else [E_sandBox_start (baseroute (objs w this)), E_rebuildUmdSnapshot])
         @ umd_hook_events (umdHookMount (objs w this)) hb (name (objs w this))\<rparr>)"
  by (cases "sandBox (objs w this)";
      simp add: mount_run_def Let_def mount_umd_eq emit_def set_state_def upd_def sandBox_call_def)


lemma adopted_simps [simp]:
  "state (adopted a c i b) = state a"
  "loadSourceLevel (adopted a c i b) = loadSourceLevel a"
  "umdMode (adopted a c i b) = umdMode a"
  "isPrefetch (adopted a c i b) = isPrefetch a"
  "name (adopted a c i b) = name a"
  "umdHookMount (adopted a c i b) = umdHookMount a"
  "sandBox (adopted a c i b) = sandBox a"
  "source (adopted a c i b) = source a"
  "inline (adopted a c i b) = (case i of None \<Rightarrow> inline a | Some v \<Rightarrow> v)"
  "container (adopted a c i b) = (case container a of Some c' \<Rightarrow> Some c' | None \<Rightarrow> c)"
  "baseroute (adopted a c i b) = (case b of None \<Rightarrow> baseroute a | Some s \<Rightarrow> s)"
  by (simp_all add: adopted_def)

lemma mount_args_eq:
  "mount_args this c i b w = w\<lparr>objs := (objs w)(this := adopted (objs w this) c i b)\<rparr>"
  by (cases i; cases b; simp add: mount_args_def Let_def upd_def adopted_def)

lemma mount_loading:
  "loadSourceLevel (objs w this) \<noteq> 2 \<Longrightarrow>
   mount this c i b hb w =
     w\<lparr>objs := (objs w)(this := (adopted (objs w this) c i b)\<lparr>state := LOADING_SOURCE_CODE\<rparr>),
       events := events w @ [Enter_mount this, Set_state this LOADING_SOURCE_CODE]\<rparr>"
  by (simp add: mount_def Let_def mount_args_eq emit_def set_state_def upd_def)

lemma mount_loaded_plain:
  "loadSourceLevel (objs w this) = 2 \<Longrightarrow> \<not> umdMode (objs w this) \<Longrightarrow>
   mount this c i b hb w =
     w\<lparr>objs := (objs w)(this := (adopted (objs w this) c i b)\<lparr>state := MOUNTING\<rparr>),
       closures := closures w @
         [\<lparr> hasDispatchMountedEvent = False, umdHookMountResult = NotPromise \<rparr>],
       events := events w @
         [Enter_mount this,
          E_dispatchLifecyclesEvent (container (adopted (objs w this) c i b))
            (name (objs w this)) LC_BEFOREMOUNT,
          Set_state this MOUNTING,
          E_cloneContainer (html (source (objs w this)))
            (container (adopted (objs w this) c i b)) True]
         @ (if sandBox (objs w this) = None then []
            else [E_sandBox_start (baseroute (adopted (objs w this) c i b))])
         @ [E_execScripts this (length (closures w))]\<rparr>"
  by (simp add: mount_def Let_def mount_args_eq emit_def mount_run_exec)

lemma mount_loaded_umd:
  "loadSourceLevel (objs w this) = 2 \<Longrightarrow> umdMode (objs w this) \<Longrightarrow>
   mount this c i b hb w =
     w\<lparr>objs := (objs w)(this := (adopted (objs w this) c i b)
               \<lparr>state := (if umd_hook_result (umdHookMount (objs w this)) hb = Promise
                           then MOUNTING else MOUNTED)\<rparr>),
       pending := pending w @
         (if umd_hook_result (umdHookMount (objs w this)) hb = Promise
          then [Cont_mounted this] else []),
       events := events w @
         [Enter_mount this,
          E_dispatchLifecyclesEvent (container (adopted (objs w this) c i b))
            (name (objs w this)) LC_BEFOREMOUNT,
          Set_state this MOUNTING,
          E_cloneContainer (html (source (objs w this)))
            (container (adopted (objs w this) c i b)) False]
         @ (if sandBox (objs w this) = None then []
            else [E_sandBox_start (baseroute (adopted (objs w this) c i b)),
                  E_rebuildUmdSnapshot])
         @ umd_hook_events (umdHookMount (objs w this)) hb (name (objs w this))
         @ Enter_handleMounted this #
           (if umd_hook_result (umdHookMount (objs w this)) hb = Promise then []
            else [Set_state this MOUNTED,
                  E_dispatchLifecyclesEvent (container (adopted (objs w this) c i b))
                    (name (objs w this)) LC_MOUNTED])\<rparr>"
  by (simp add: mount_def Let_def mount_args_eq emit_def mount_run_umd handleMounted_eq)



lemma mount_objs:
  "objs (mount this c i b hb w) = (objs w)(this := (adopted (objs w this) c i b)
     \<lparr>state := (if loadSourceLevel (objs w this) \<noteq> 2 then LOADING_SOURCE_CODE
                 else if \<not> umdMode (objs w this) then MOUNTING
                 else if umd_hook_result (umdHookMount (objs w this)) hb = Promise then MOUNTING
                 else MOUNTED)\<rparr>)"
proof (cases "loadSourceLevel (objs w this) = 2")
  case False
  then show ?thesis by (simp add: mount_loading)
next
  case True
  then show ?thesis
    by (cases "umdMode (objs w this)") (simp_all add: mount_loaded_plain mount_loaded_umd)
qed

lemma mount_appInstanceMap: "appInstanceMap (mount this c i b hb w) = appInstanceMap w"
proof (cases "loadSourceLevel (objs w this) = 2")
  case False
  then show ?thesis by (simp add: mount_loading)
next
  case True
  then show ?thesis
    by (cases "umdMode (objs w this)") (simp_all add: mount_loaded_plain mount_loaded_umd)
qed

lemma onLoad_frame:
  "appInstanceMap (onLoad this h hb w) = appInstanceMap w"
  "isPrefetch (objs (onLoad this h hb w) r) = isPrefetch (objs w r)"
  by (simp_all add: onLoad_def Let_def mount_appInstanceMap mount_objs)

lemma onLoads_appInstanceMap: "appInstanceMap (onLoads this hs w) = appInstanceMap w"
  by (induction this hs w rule: onLoads.induct) (simp_all add: onLoad_frame)

lemma onLoads_isPrefetch: "isPrefetch (objs (onLoads this hs w) r) = isPrefetch (objs w r)"
  by (induction this hs w rule: onLoads.induct) (simp_all add: onLoad_frame)

lemma active_filter:
  "distinct (map fst xs) \<Longrightarrow>
     map fst (filter (\<lambda>(k, r). P r) xs) =
     filter (\<lambda>n. case map_of xs n of None \<Rightarrow> False | Some r \<Rightarrow> P r) (map fst xs)"
proof (induction xs)
  case Nil
  show ?case by simp
next
  case (Cons x xs)
  obtain k r where x: "x = (k, r)" by (cases x)
  from Cons.prems x have k: "k \<notin> fst ` set xs" and d: "distinct (map fst xs)" by auto
  have "filter (\<lambda>n. case map_of (x # xs) n of None \<Rightarrow> False | Some r \<Rightarrow> P r) (map fst xs) =
        filter (\<lambda>n. case map_of xs n of None \<Rightarrow> False | Some r \<Rightarrow> P r) (map fst xs)"
    using k x by (intro filter_cong) auto
  with Cons.IH [OF d] x show ?case by simp
qed


lemma umd_hook_events_no_marker [simp]:
  "count_list (umd_hook_events f hb n) (Enter_mount this) = 0"
  by (simp add: umd_hook_events_def split: option.splits hook_behaviour.splits)

lemma mount_calls_mount: "mount_calls this (mount this c i b hb w) = mount_calls this w + 1"
proof (cases "loadSourceLevel (objs w this) = 2")
  case False
  then show ?thesis by (simp add: mount_loading mount_calls_def)
next
  case True
  then show ?thesis
    by (cases "umdMode (objs w this)")
      (simp_all add: mount_loaded_plain mount_loaded_umd mount_calls_def)
qed

lemma onLoad_not_reaching_2:
  "loadSourceLevel (objs w this) \<noteq> 1 \<Longrightarrow>
   onLoad this h hb w = upd this (\<lambda>a. a\<lparr>loadSourceLevel := loadSourceLevel a + 1\<rparr>) w"
  by (simp add: onLoad_def Let_def)

lemma onLoad_guarded:
  "loadSourceLevel (objs w this) = 1 \<Longrightarrow>
   isPrefetch (objs w this) \<or> state (objs w this) = UNMOUNT \<Longrightarrow>
   onLoad this h hb w =
     upd this (\<lambda>a. a\<lparr>loadSourceLevel := 2, source := (source a)\<lparr>html := Some h\<rparr>\<rparr>) w"
  by (auto simp add: onLoad_def Let_def upd_def)

lemma onLoad_mounting:
  "loadSourceLevel (objs w this) = 1 \<Longrightarrow> \<not> isPrefetch (objs w this) \<Longrightarrow>
   state (objs w this) \<noteq> UNMOUNT \<Longrightarrow>
   onLoad this h hb w =
     mount this None None None hb
       (set_state this LOAD_SOURCE_FINISHED
          (upd this (\<lambda>a. a\<lparr>loadSourceLevel := 2, source := (source a)\<lparr>html := Some h\<rparr>\<rparr>) w))"
  by (auto simp add: onLoad_def Let_def upd_def set_state_def)

lemma umd_hook_events_no_exec:
  "E_execScripts r cid \<notin> set (umd_hook_events f hb n)"
  by (simp add: umd_hook_events_def split: option.splits hook_behaviour.splits)

lemma mount_umd_no_execScripts:
  assumes "umdMode (objs w this)"
  shows "closures (mount this c i b hb w) = closures w"
    and "E_execScripts r cid \<notin> set (drop (length (events w)) (events (mount this c i b hb w)))"
proof -
  show "closures (mount this c i b hb w) = closures w"
    using assms
    by (cases "loadSourceLevel (objs w this) = 2") (simp_all add: mount_loading mount_loaded_umd)
  show "E_execScripts r cid \<notin> set (drop (length (events w)) (events (mount this c i b hb w)))"
    using assms
    by (cases "loadSourceLevel (objs w this) = 2")
      (simp_all add: mount_loading mount_loaded_umd umd_hook_events_no_exec)
qed

lemma callback_umd:
  "umdMode (objs w this) \<Longrightarrow>
   execScripts_callback this cid fin pr w =
     (if cid < length (closures w) \<and> \<not> hasDispatchMountedEvent (closures w ! cid)
      then (handleMounted this (umdHookMountResult (closures w ! cid))
              (w\<lparr>closures := (closures w)
                   [cid := (closures w ! cid)\<lparr>hasDispatchMountedEvent := True\<rparr>]\<rparr>),
            Returned)
      else (w, Returned))"
  by (simp add: execScripts_callback_def Let_def)

lemma container_None_triv: "container a = None \<Longrightarrow> a\<lparr>container := None\<rparr> = a"
  by (cases a) simp

lemma actionsForUnmount_eq:
  "actionsForUnmount this d cnt w =
     (w\<lparr>objs := (objs w)(this := (objs w this)\<lparr>container := None\<rparr>),
        appInstanceMap := (if d then filter (\<lambda>(k, r). k \<noteq> name (objs w this)) (appInstanceMap w)
                           else appInstanceMap w),
        events := events w @ teardown_events this d cnt (objs w this)\<rparr>,
      if container (objs w this) = None then TypeError else Returned)"
  by (cases "container (objs w this)"; cases "sandBox (objs w this)"; cases d;
      cases "umdMode (objs w this)"; cases "cnt = 0";
      simp add: actionsForUnmount_def actionsForCompletelyDestory_def Let_def teardown_events_def
        emit_def upd_def sandBox_call_def container_None_triv)


lemma unmount_eq:
  "unmount this destroy hb cnt w =
     (if umdHookUnmount (objs w this) \<noteq> None \<and> hb = Returns Promise
      then ((before_teardown this hb w)\<lparr>pending := pending w @
               [Cont_unmounted this (state (objs w this) = LOAD_SOURCE_ERROR \<or> destroy)]\<rparr>,
            Returned)
      else actionsForUnmount this (state (objs w this) = LOAD_SOURCE_ERROR \<or> destroy) cnt
             (before_teardown this hb w))"
proof -
  have d: "(if state (objs w this) = LOAD_SOURCE_ERROR then True else destroy) =
      (state (objs w this) = LOAD_SOURCE_ERROR \<or> destroy)" by simp
  show ?thesis
  proof (cases "umdHookUnmount (objs w this)")
    case None
    then show ?thesis
      unfolding unmount_def d
      by (simp add: Let_def handleUnmounted_def before_teardown_def unmount_hook_events_def
          emit_def set_state_def upd_def)
  next
    case (Some f)
    show ?thesis
    proof (cases hb)
      case Throws
      with Some show ?thesis
        unfolding unmount_def d
        by (simp add: Let_def handleUnmounted_def before_teardown_def unmount_hook_events_def
            emit_def set_state_def upd_def)
    next
      case (Returns r)
      with Some show ?thesis
        unfolding unmount_def d
        by (cases r)
          (simp_all add: Let_def handleUnmounted_def before_teardown_def unmount_hook_events_def
            emit_def set_state_def upd_def)
    qed
  qed
qed

lemma unmount_state: "state (objs (fst (unmount this destroy hb cnt w)) this) = UNMOUNT"
  by (simp add: unmount_eq actionsForUnmount_eq before_teardown_def)

lemma onLoad_unmounted:
  "state (objs w this) = UNMOUNT \<Longrightarrow>
     events (onLoad this h hb w) = events w \<and> state (objs (onLoad this h hb w) this) = UNMOUNT \<and>
     pending (onLoad this h hb w) = pending w \<and>
     loadSourceLevel (objs (onLoad this h hb w) this) = loadSourceLevel (objs w this) + 1"
  by (simp add: onLoad_def Let_def)

lemma onLoads_unmounted:
  "state (objs w this) = UNMOUNT \<Longrightarrow>
     events (onLoads this hs w) = events w \<and> state (objs (onLoads this hs w) this) = UNMOUNT \<and>
     pending (onLoads this hs w) = pending w \<and>
     loadSourceLevel (objs (onLoads this hs w) this) = loadSourceLevel (objs w this) + int (length hs)"
proof (induction this hs w rule: onLoads.induct)
  case (1 this w)
  then show ?case by simp
next
  case (2 this h hb hs w)
  from onLoad_unmounted [OF "2.prems", of h hb] "2.IH" show ?case by simp
qed

lemma dispatchMountedEvent_unmounted:
  "state (objs w this) = UNMOUNT \<Longrightarrow> dispatchMountedEvent this w = w"
  by (simp add: dispatchMountedEvent_def)

lemma teardown_events_count [simp]:
  "count_list (teardown_events this d cnt a) (Enter_actionsForUnmount this d) = 1"
  by (simp add: teardown_events_def split: option.splits)

lemma unmount_hook_events_count [simp]:
  "count_list (unmount_hook_events f hb n) (Enter_actionsForUnmount this d) = 0"
  by (simp add: unmount_hook_events_def split: option.splits hook_behaviour.splits)

lemma teardowns_actionsForUnmount:
  "teardowns this d (fst (actionsForUnmount this d cnt w)) = teardowns this d w + 1"
  by (simp add: actionsForUnmount_eq teardowns_def)

lemma teardowns_before_teardown:
  "teardowns this d (before_teardown this hb w) = teardowns this d w"
  by (simp add: before_teardown_def teardowns_def)

lemma run_continuation_unmounted:
  "run_continuation (Cont_unmounted this d) False cnt w = actionsForUnmount this d cnt w"
  "run_continuation (Cont_unmounted this d) True cnt w =
     (if container (objs w this) = None
      then actionsForUnmount this d cnt (fst (actionsForUnmount this d cnt w))
      else actionsForUnmount this d cnt w)"
  by (simp_all add: actionsForUnmount_eq)

lemma registry_after_destroy:
  "appInstanceMap (fst (actionsForUnmount this True cnt w)) =
     filter (\<lambda>(k, r). k \<noteq> name (objs w this)) (appInstanceMap w)"
  "name (objs (fst (actionsForUnmount this d cnt w)) this) = name (objs w this)"
  by (simp_all add: actionsForUnmount_eq)

lemma not_in_filtered: "n \<notin> set (map fst (filter (\<lambda>(k, r). k \<noteq> n) xs))"
  by auto

lemma onLoadError_eq:
  "onLoadError this w =
     (if state (objs w this) \<noteq> UNMOUNT
      then w\<lparr>objs := (objs w)(this := (objs w this)
                 \<lparr>loadSourceLevel := - 1, state := LOAD_SOURCE_ERROR\<rparr>),
             events := events w @
               [E_dispatchLifecyclesEvent (container (objs w this)) (name (objs w this)) LC_ERROR,
                Set_state this LOAD_SOURCE_ERROR]\<rparr>
      else w\<lparr>objs := (objs w)(this := (objs w this)\<lparr>loadSourceLevel := - 1\<rparr>)\<rparr>)"
  by (auto simp add: onLoadError_def onerror_def Let_def emit_def set_state_def upd_def)














lemma settle_last:
  "pending w = ps @ [k] \<Longrightarrow>
   settle (length ps) fulfilled cnt w = run_continuation k fulfilled cnt (w\<lparr>pending := ps\<rparr>)"
  by (simp add: settle_def)

lemma unmount_deferred:
  "umdHookUnmount (objs w this) \<noteq> None \<and> hb = Returns Promise \<Longrightarrow>
   settle (length (pending w)) fulfilled cnt' (fst (unmount this destroy hb cnt w)) =
     run_continuation (Cont_unmounted this (state (objs w this) = LOAD_SOURCE_ERROR \<or> destroy))
       fulfilled cnt' (before_teardown this hb w)"
proof -
  assume a: "umdHookUnmount (objs w this) \<noteq> None \<and> hb = Returns Promise"
  let ?d = "state (objs w this) = LOAD_SOURCE_ERROR \<or> destroy"
  let ?u = "(before_teardown this hb w)\<lparr>pending := pending w @ [Cont_unmounted this ?d]\<rparr>"
  from a have u: "fst (unmount this destroy hb cnt w) = ?u" by (simp add: unmount_eq)
  have "pending ?u = pending w @ [Cont_unmounted this ?d]" by simp
  from settle_last [OF this, of fulfilled cnt']
  have "settle (length (pending w)) fulfilled cnt' ?u =
      run_continuation (Cont_unmounted this ?d) fulfilled cnt' (?u\<lparr>pending := pending w\<rparr>)" .
  moreover have "?u\<lparr>pending := pending w\<rparr> = before_teardown this hb w"
    by (simp add: before_teardown_def)
  ultimately show ?thesis unfolding u by simp
qed


subsection \<open>The example inputs, evaluated\<close>

lemma world1_eq:
  "world1 = \<lparr> objs = (\<lambda>_. no_app)(0 := no_app\<lparr>state := LOADING_SOURCE_CODE, name := ''app1'',
                 url := ''http://a.test/index.html'', container := Some 7, scopecss := True,
                 useSandbox := True,
                 sandBox := Some (SandBox ''app1'' ''http://a.test/index.html'' False)\<rparr>),
              appInstanceMap = [(''app1'', 0)], closures = [], pending = [],
              events = [Set_state 0 LOADING_SOURCE_CODE, E_extractHtml 0] \<rparr>"
  by (simp add: world1_def world0_def app1_param_def new_CreateApp_def loadSourceCode_def Let_def
      emit_def set_state_def upd_def no_app_def)


lemma world2_eq:
  "world2 = \<lparr> objs = (\<lambda>_. no_app)
                (0 := no_app\<lparr>state := LOADING_SOURCE_CODE, name := ''app1'',
                 url := ''http://a.test/index.html'', container := Some 7, scopecss := True,
                 useSandbox := True,
                 sandBox := Some (SandBox ''app1'' ''http://a.test/index.html'' False)\<rparr>,
                 1 := no_app\<lparr>state := LOADING_SOURCE_CODE, isPrefetch := True, name := ''app2'',
                 url := ''http://b.test/index.html'', scopecss := True,
                 useSandbox := True,
                 sandBox := Some (SandBox ''app2'' ''http://b.test/index.html'' False)\<rparr>),
              appInstanceMap = [(''app1'', 0), (''app2'', 1)], closures = [], pending = [],
              events = [Set_state 0 LOADING_SOURCE_CODE, E_extractHtml 0,
                        Set_state 1 LOADING_SOURCE_CODE, E_extractHtml 1] \<rparr>"
  by (simp add: world2_def world1_eq app2_param_def new_CreateApp_def loadSourceCode_def Let_def
      emit_def set_state_def upd_def no_app_def)

lemma world3_eq:
  "world3 = \<lparr> objs = (\<lambda>_. no_app)(0 := no_app\<lparr>state := MOUNTED, loadSourceLevel := 2,
                 umdHookMount := Some 1, umdHookUnmount := Some 2,
                 libraryName := Some ''micro-app-app1'', umdMode := True, name := ''app1'',
                 url := ''http://a.test/index.html'', container := Some 7, scopecss := True,
                 useSandbox := True,
                 source := \<lparr> links = [], scripts = [], html = Some 5 \<rparr>,
                 sandBox := Some (SandBox ''app1'' ''http://a.test/index.html'' False)\<rparr>),
              appInstanceMap = [(''app1'', 0)],
              closures = [\<lparr> hasDispatchMountedEvent = True, umdHookMountResult = NotPromise \<rparr>],
              pending = [],
              events = [Set_state 0 LOADING_SOURCE_CODE, E_extractHtml 0,
                Set_state 0 LOAD_SOURCE_FINISHED, Enter_mount 0,
                E_dispatchLifecyclesEvent (Some 7) ''app1'' LC_BEFOREMOUNT,
                Set_state 0 MOUNTING, E_cloneContainer (Some 5) (Some 7) True,
                E_sandBox_start [], E_execScripts 0 0, E_recordUmdSnapshot,
                E_call_hook 1, Enter_handleMounted 0, Set_state 0 MOUNTED,
                E_dispatchLifecyclesEvent (Some 7) ''app1'' LC_MOUNTED] \<rparr>"
  by (simp add: world3_def world1_eq probe_umd_def no_app_def
      onLoad_def Let_def mount_def mount_args_eq adopted_def mount_run_exec
      execScripts_callback_def detect_umd_def getUmdLibraryHooks_def handleMounted_eq
      emit_def set_state_def upd_def sandBox_call_def)

lemma world1_loaded_once:
  "onLoad 0 5 (Returns NotPromise) world1 =
     world1\<lparr>objs := (objs world1)(0 := (objs world1 0)\<lparr>loadSourceLevel := 1\<rparr>)\<rparr>"
  by (simp add: onLoad_def Let_def world1_eq no_app_def upd_def)



section \<open>Properties of the lifecycle\<close>

text \<open>
  C1, as amended. \<^verbatim>\<open>onLoad\<close> only increments \<^verbatim>\<open>loadSourceLevel\<close>
  unless the increment reaches exactly 2. When it reaches 2 the html fragment is
  stored; then, unless the instance is a prefetch or its state is UNMOUNT (and in
  that case nothing else happens), the state is set to LOAD_SOURCE_FINISHED and
  \<^verbatim>\<open>mount\<close> is called exactly once. So from level 0, for a live instance that
  is not a prefetch, the first \<^verbatim>\<open>onLoad\<close> performs no mount and the second
  performs exactly one and stores its own fragment, whichever channel it comes from.
  A \<^verbatim>\<open>mount\<close> invoked while \<^verbatim>\<open>loadSourceLevel\<close> is not 2 adopts its
  arguments, sets the state to LOADING_SOURCE_CODE and returns, with no call of an
  imported function.
\<close>

theorem onLoad_mount_at_level_2:
  "(loadSourceLevel (objs w this) \<noteq> 1 \<longrightarrow>
      onLoad this h hb w = upd this (\<lambda>a. a\<lparr>loadSourceLevel := loadSourceLevel a + 1\<rparr>) w) \<and>
   (loadSourceLevel (objs w this) = 1 \<and>
    (isPrefetch (objs w this) \<or> state (objs w this) = UNMOUNT) \<longrightarrow>
      onLoad this h hb w =
        upd this (\<lambda>a. a\<lparr>loadSourceLevel := 2, source := (source a)\<lparr>html := Some h\<rparr>\<rparr>) w) \<and>
   (loadSourceLevel (objs w this) = 1 \<and> \<not> isPrefetch (objs w this) \<and>
    state (objs w this) \<noteq> UNMOUNT \<longrightarrow>
      onLoad this h hb w =
        mount this None None None hb
          (set_state this LOAD_SOURCE_FINISHED
             (upd this (\<lambda>a. a\<lparr>loadSourceLevel := 2,
                               source := (source a)\<lparr>html := Some h\<rparr>\<rparr>) w)) \<and>
      mount_calls this (onLoad this h hb w) = mount_calls this w + 1) \<and>
   (loadSourceLevel (objs w this) = 0 \<and> \<not> isPrefetch (objs w this) \<and>
    state (objs w this) \<noteq> UNMOUNT \<longrightarrow>
      mount_calls this (onLoad this h hb w) = mount_calls this w \<and>
      mount_calls this (onLoad this h' hb' (onLoad this h hb w)) = mount_calls this w + 1 \<and>
      html (source (objs (onLoad this h' hb' (onLoad this h hb w)) this)) = Some h') \<and>
   (loadSourceLevel (objs w this) \<noteq> 2 \<longrightarrow>
      mount this c i b hb w =
        w\<lparr>objs := (objs w)(this := (objs w this)
               \<lparr>inline := (case i of None \<Rightarrow> inline (objs w this) | Some v \<Rightarrow> v),
                container := (case container (objs w this) of Some c' \<Rightarrow> Some c' | None \<Rightarrow> c),
                baseroute := (case b of None \<Rightarrow> baseroute (objs w this) | Some s \<Rightarrow> s),
                state := LOADING_SOURCE_CODE\<rparr>),
          events := events w @ [Enter_mount this, Set_state this LOADING_SOURCE_CODE]\<rparr>)"
proof (intro conjI impI)
  assume "loadSourceLevel (objs w this) \<noteq> 1"
  then show "onLoad this h hb w =
      upd this (\<lambda>a. a\<lparr>loadSourceLevel := loadSourceLevel a + 1\<rparr>) w"
    by (rule onLoad_not_reaching_2)
next
  assume "loadSourceLevel (objs w this) = 1 \<and>
    (isPrefetch (objs w this) \<or> state (objs w this) = UNMOUNT)"
  then show "onLoad this h hb w =
      upd this (\<lambda>a. a\<lparr>loadSourceLevel := 2, source := (source a)\<lparr>html := Some h\<rparr>\<rparr>) w"
    using onLoad_guarded by blast
next
  assume a: "loadSourceLevel (objs w this) = 1 \<and> \<not> isPrefetch (objs w this) \<and>
    state (objs w this) \<noteq> UNMOUNT"
  then show m: "onLoad this h hb w =
        mount this None None None hb
          (set_state this LOAD_SOURCE_FINISHED
             (upd this (\<lambda>a. a\<lparr>loadSourceLevel := 2,
                               source := (source a)\<lparr>html := Some h\<rparr>\<rparr>) w))"
    using onLoad_mounting by blast
  show "mount_calls this (onLoad this h hb w) = mount_calls this w + 1"
    unfolding m mount_calls_mount by (simp add: mount_calls_def)
next
  assume a: "loadSourceLevel (objs w this) = 0 \<and> \<not> isPrefetch (objs w this) \<and>
    state (objs w this) \<noteq> UNMOUNT"
  let ?w1 = "upd this (\<lambda>a. a\<lparr>loadSourceLevel := loadSourceLevel a + 1\<rparr>) w"
  from a have w1: "onLoad this h hb w = ?w1" by (simp add: onLoad_not_reaching_2)
  from a have g: "loadSourceLevel (objs ?w1 this) = 1" "\<not> isPrefetch (objs ?w1 this)"
    "state (objs ?w1 this) \<noteq> UNMOUNT" by simp_all
  show "mount_calls this (onLoad this h hb w) = mount_calls this w"
    by (simp add: w1 mount_calls_def)
  show "mount_calls this (onLoad this h' hb' (onLoad this h hb w)) = mount_calls this w + 1"
    unfolding w1 onLoad_mounting [OF g] mount_calls_mount by (simp add: mount_calls_def)
  show "html (source (objs (onLoad this h' hb' (onLoad this h hb w)) this)) = Some h'"
    unfolding w1 onLoad_mounting [OF g] by (simp add: mount_objs)
next
  assume "loadSourceLevel (objs w this) \<noteq> 2"
  then show "mount this c i b hb w =
        w\<lparr>objs := (objs w)(this := (objs w this)
               \<lparr>inline := (case i of None \<Rightarrow> inline (objs w this) | Some v \<Rightarrow> v),
                container := (case container (objs w this) of Some c' \<Rightarrow> Some c' | None \<Rightarrow> c),
                baseroute := (case b of None \<Rightarrow> baseroute (objs w this) | Some s \<Rightarrow> s),
                state := LOADING_SOURCE_CODE\<rparr>),
          events := events w @ [Enter_mount this, Set_state this LOADING_SOURCE_CODE]\<rparr>"
    by (simp add: mount_loading adopted_def)
qed

theorem onLoad_mount_at_level_2_witness:
  "loadSourceLevel (objs world1 0) = 0 \<and> \<not> isPrefetch (objs world1 0) \<and>
   state (objs world1 0) \<noteq> UNMOUNT \<and>
   mount_calls 0 (onLoad 0 5 (Returns NotPromise) world1) = 0 \<and>
   mount_calls 0 (onLoad 0 6 (Returns NotPromise) (onLoad 0 5 (Returns NotPromise) world1)) = 1 \<and>
   html (source (objs (onLoad 0 6 (Returns NotPromise)
     (onLoad 0 5 (Returns NotPromise) world1)) 0)) = Some 6 \<and>
   events (mount 0 (Some 9) None None (Returns NotPromise) world1) =
     events world1 @ [Enter_mount 0, Set_state 0 LOADING_SOURCE_CODE] \<and>
   loadSourceLevel (objs (onLoad 1 5 (Returns NotPromise) world2) 1) = 1 \<and>
   isPrefetch (objs (onLoad 1 5 (Returns NotPromise) world2) 1) \<and>
   events (onLoad 1 6 (Returns NotPromise) (onLoad 1 5 (Returns NotPromise) world2)) =
     events world2"
proof -
  let ?r = "Returns NotPromise"
  have l1: "loadSourceLevel (objs (onLoad 1 5 ?r world2) 1) = 1"
    and p1: "isPrefetch (objs (onLoad 1 5 ?r world2) 1)"
    and e1: "events (onLoad 1 5 ?r world2) = events world2"
    by (simp_all add: onLoad_def Let_def world2_eq no_app_def)
  have l0: "loadSourceLevel (objs world1 0) = 0" "\<not> isPrefetch (objs world1 0)"
    "state (objs world1 0) \<noteq> UNMOUNT"
    by (simp_all add: world1_eq no_app_def)
  have m0: "mount_calls 0 world1 = 0"
    by (simp add: world1_eq mount_calls_def)
  note t1 = onLoad_mount_at_level_2 [of world1 0 5 ?r 6 ?r "Some 9" None None]
  note t2 = onLoad_mount_at_level_2 [of "onLoad 1 5 ?r world2" 1 6 ?r 6 ?r None None None]
  from t1 l0 have a: "mount_calls 0 (onLoad 0 5 ?r world1) = mount_calls 0 world1 \<and>
      mount_calls 0 (onLoad 0 6 ?r (onLoad 0 5 ?r world1)) = mount_calls 0 world1 + 1 \<and>
      html (source (objs (onLoad 0 6 ?r (onLoad 0 5 ?r world1)) 0)) = Some 6"
    by blast
  from t1 l0 have "mount 0 (Some 9) None None ?r world1 =
        world1\<lparr>objs := (objs world1)(0 := (objs world1 0)
               \<lparr>inline := (case None of None \<Rightarrow> inline (objs world1 0) | Some v \<Rightarrow> v),
                container := (case container (objs world1 0) of Some c' \<Rightarrow> Some c'
                              | None \<Rightarrow> Some 9),
                baseroute := (case None of None \<Rightarrow> baseroute (objs world1 0) | Some s \<Rightarrow> s),
                state := LOADING_SOURCE_CODE\<rparr>),
          events := events world1 @ [Enter_mount 0, Set_state 0 LOADING_SOURCE_CODE]\<rparr>"
    by simp
  then have b: "events (mount 0 (Some 9) None None ?r world1) =
     events world1 @ [Enter_mount 0, Set_state 0 LOADING_SOURCE_CODE]"
    by simp
  from t2 l1 p1 have "onLoad 1 6 ?r (onLoad 1 5 ?r world2) =
        upd 1 (\<lambda>a. a\<lparr>loadSourceLevel := 2, source := (source a)\<lparr>html := Some 6\<rparr>\<rparr>)
          (onLoad 1 5 ?r world2)"
    by blast
  then have c: "events (onLoad 1 6 ?r (onLoad 1 5 ?r world2)) = events world2"
    using e1 by simp
  from a b c l0 l1 p1 m0 show ?thesis by simp
qed

text \<open>
  C1 as stated, for every instance, fails for a prefetch: the second
  \<^verbatim>\<open>onLoad\<close> on \<open>app2\<close> brings the level to 2, yet \<^verbatim>\<open>mount\<close> is not
  entered and the state is not set to LOAD_SOURCE_FINISHED. And a \<^verbatim>\<open>mount\<close>
  at level 0 does more than set the state: it has assigned \<^verbatim>\<open>inline\<close> and
  \<^verbatim>\<open>baseroute\<close> from its arguments before it returns.
\<close>

theorem onLoad_prefetch_counterexample:
  "loadSourceLevel (objs (onLoad 1 5 (Returns NotPromise) world2) 1) = 1 \<and>
   loadSourceLevel
     (objs (onLoad 1 5 (Returns NotPromise) (onLoad 1 5 (Returns NotPromise) world2)) 1) = 2 \<and>
   mount_calls 1 (onLoad 1 5 (Returns NotPromise) (onLoad 1 5 (Returns NotPromise) world2)) = 0 \<and>
   state (objs (onLoad 1 5 (Returns NotPromise) (onLoad 1 5 (Returns NotPromise) world2)) 1)
     = LOADING_SOURCE_CODE \<and>
   loadSourceLevel (objs world1 0) = 0 \<and>
   inline (objs world1 0) = False \<and> baseroute (objs world1 0) = [] \<and>
   inline (objs (mount 0 None (Some True) (Some ''/base'') (Returns NotPromise) world1) 0)
     = True \<and>
   baseroute (objs (mount 0 None (Some True) (Some ''/base'') (Returns NotPromise) world1) 0)
     = ''/base''"
proof -
  have "loadSourceLevel (objs (onLoad 1 5 (Returns NotPromise) world2) 1) = 1 \<and>
   loadSourceLevel
     (objs (onLoad 1 5 (Returns NotPromise) (onLoad 1 5 (Returns NotPromise) world2)) 1) = 2 \<and>
   mount_calls 1 (onLoad 1 5 (Returns NotPromise) (onLoad 1 5 (Returns NotPromise) world2)) = 0 \<and>
   state (objs (onLoad 1 5 (Returns NotPromise) (onLoad 1 5 (Returns NotPromise) world2)) 1)
     = LOADING_SOURCE_CODE"
    by (simp add: onLoad_def Let_def world2_eq mount_calls_def no_app_def)
  moreover have "loadSourceLevel (objs world1 0) = 0 \<and>
   inline (objs world1 0) = False \<and> baseroute (objs world1 0) = [] \<and>
   inline (objs (mount 0 None (Some True) (Some ''/base'') (Returns NotPromise) world1) 0)
     = True \<and>
   baseroute (objs (mount 0 None (Some True) (Some ''/base'') (Returns NotPromise) world1) 0)
     = ''/base''"
    by (simp add: mount_objs) (simp add: world1_eq no_app_def)
  ultimately show ?thesis by blast
qed

text \<open>
  C2. Once \<^verbatim>\<open>unmount(true)\<close> has run, the state is UNMOUNT, and any number of
  later \<^verbatim>\<open>onLoad\<close> calls, among them the one that raises
  \<^verbatim>\<open>loadSourceLevel\<close> to 2, add nothing to the trace: \<^verbatim>\<open>mount\<close> is not
  entered, the state stays UNMOUNT and no notification is sent. In any world where the
  state of the instance is UNMOUNT, \<^verbatim>\<open>dispatchMountedEvent\<close> changes nothing,
  neither the state nor the trace, also when it runs as the continuation of a mount
  hook's promise.
\<close>

theorem late_completion_after_unmount:
  "state (objs (fst (unmount this True hb cnt w)) this) = UNMOUNT \<and>
   events (onLoads this hs (fst (unmount this True hb cnt w))) =
     events (fst (unmount this True hb cnt w)) \<and>
   mount_calls this (onLoads this hs (fst (unmount this True hb cnt w))) =
     mount_calls this (fst (unmount this True hb cnt w)) \<and>
   state (objs (onLoads this hs (fst (unmount this True hb cnt w))) this) = UNMOUNT \<and>
   loadSourceLevel (objs (onLoads this hs (fst (unmount this True hb cnt w))) this) =
     loadSourceLevel (objs w this) + int (length hs) \<and>
   (\<forall>w'. state (objs w' this) = UNMOUNT \<longrightarrow>
      events (onLoad this h hb' w') = events w' \<and>
      state (objs (onLoad this h hb' w') this) = UNMOUNT \<and>
      dispatchMountedEvent this w' = w' \<and>
      run_continuation (Cont_mounted this) True cnt w' = (w', Returned))"
proof -
  let ?u = "fst (unmount this True hb cnt w)"
  have s: "state (objs ?u this) = UNMOUNT" by (rule unmount_state)
  have l: "loadSourceLevel (objs ?u this) = loadSourceLevel (objs w this)"
    by (simp add: unmount_eq actionsForUnmount_eq before_teardown_def)
  from onLoads_unmounted [OF s, of hs] s l show ?thesis
    by (simp add: mount_calls_def dispatchMountedEvent_unmounted onLoad_unmounted)
qed

theorem late_completion_after_unmount_witness:
  "loadSourceLevel (objs (onLoad 0 5 (Returns NotPromise) world1) 0) = 1 \<and>
   state (objs (fst (unmount 0 True (Returns NotPromise) 0
     (onLoad 0 5 (Returns NotPromise) world1))) 0) = UNMOUNT \<and>
   loadSourceLevel (objs (onLoads 0 [(6, Returns NotPromise)]
     (fst (unmount 0 True (Returns NotPromise) 0 (onLoad 0 5 (Returns NotPromise) world1)))) 0) = 2 \<and>
   mount_calls 0 (onLoads 0 [(6, Returns NotPromise)]
     (fst (unmount 0 True (Returns NotPromise) 0 (onLoad 0 5 (Returns NotPromise) world1)))) = 0 \<and>
   getAllApps (onLoads 0 [(6, Returns NotPromise)]
     (fst (unmount 0 True (Returns NotPromise) 0 (onLoad 0 5 (Returns NotPromise) world1)))) = [] \<and>
   dispatchMountedEvent 0 (onLoads 0 [(6, Returns NotPromise)]
     (fst (unmount 0 True (Returns NotPromise) 0 (onLoad 0 5 (Returns NotPromise) world1)))) =
   onLoads 0 [(6, Returns NotPromise)]
     (fst (unmount 0 True (Returns NotPromise) 0 (onLoad 0 5 (Returns NotPromise) world1)))"
proof -
  let ?r = "Returns NotPromise"
  let ?u = "fst (unmount 0 True ?r 0 (onLoad 0 5 ?r world1))"
  let ?v = "onLoads 0 [(6, ?r)] ?u"
  note t = late_completion_after_unmount [of 0 ?r 0 "onLoad 0 5 ?r world1" "[(6, ?r)]" 6 ?r]
  have l: "loadSourceLevel (objs (onLoad 0 5 ?r world1) 0) = 1"
    by (simp add: world1_loaded_once)
  have m: "mount_calls 0 ?u = 0"
    unfolding world1_loaded_once
    by (simp add: unmount_eq actionsForUnmount_eq before_teardown_def
        mount_calls_def world1_eq no_app_def teardown_events_def unmount_hook_events_def)
  have g: "getAllApps ?v = []"
    unfolding world1_loaded_once
    by (simp add: unmount_eq actionsForUnmount_eq before_teardown_def
        getAllApps_def world1_eq no_app_def onLoad_frame)
  from t have s: "state (objs ?v 0) = UNMOUNT" by blast
  from t have "state (objs ?v 0) = UNMOUNT \<longrightarrow> dispatchMountedEvent 0 ?v = ?v" by blast
  with s have d: "dispatchMountedEvent 0 ?v = ?v" by blast
  from t l m have "state (objs ?u 0) = UNMOUNT \<and> loadSourceLevel (objs ?v 0) = 2 \<and>
      mount_calls 0 ?v = 0" by simp
  with l g d show ?thesis by blast
qed

text \<open>
  C3, as amended. For an instance whose \<^verbatim>\<open>umdMode\<close> is already true,
  \<^verbatim>\<open>mount\<close> never calls \<^verbatim>\<open>execScripts\<close> and creates no callback
  closure; and when its resources are fully loaded (\<^verbatim>\<open>loadSourceLevel\<close> is 2)
  it takes the UMD branch: after the before-mount notification, the state MOUNTING,
  the shallow clone of the fragment and the start of the sandbox, it rebuilds the
  sandbox snapshot (when there is a sandbox), calls the cached
  \<^verbatim>\<open>umdHookMount\<close> (logging an error if the call raises), and handles the mounted
  notification: at once, or through a continuation registered on the promise that the
  hook returned. The cached hook is kept. A completion callback that runs while
  \<^verbatim>\<open>umdMode\<close> is true does not probe for the library again, and returns
  normally.
\<close>

theorem mount_umd_branch:
  fixes w :: world and this :: ref and c :: "element option" and b :: "string option"
    and hb :: hook_behaviour and cont br deferred
  defines "cont \<equiv> (case container (objs w this) of Some c' \<Rightarrow> Some c' | None \<Rightarrow> c)"
    and "br \<equiv> (case b of None \<Rightarrow> baseroute (objs w this) | Some s \<Rightarrow> s)"
    and "deferred \<equiv> (umdHookMount (objs w this) \<noteq> None \<and> hb = Returns Promise)"
  assumes umd: "umdMode (objs w this)"
  shows "closures (mount this c i b hb w) = closures w \<and>
    (\<forall>r cid. E_execScripts r cid \<notin>
        set (drop (length (events w)) (events (mount this c i b hb w)))) \<and>
    (loadSourceLevel (objs w this) = 2 \<longrightarrow>
       events (mount this c i b hb w) = events w @
         [Enter_mount this,
          E_dispatchLifecyclesEvent cont (name (objs w this)) LC_BEFOREMOUNT,
          Set_state this MOUNTING,
          E_cloneContainer (html (source (objs w this))) cont False] @
         (case sandBox (objs w this) of
            None \<Rightarrow> []
          | Some sb \<Rightarrow> [E_sandBox_start br, E_rebuildUmdSnapshot]) @
         (case umdHookMount (objs w this) of
            None \<Rightarrow> [E_logError ''an error occurred in the mount function'' (name (objs w this))]
          | Some f \<Rightarrow>
              (case hb of
                 Throws \<Rightarrow> [E_call_hook f,
                   E_logError ''an error occurred in the mount function'' (name (objs w this))]
               | Returns res \<Rightarrow> [E_call_hook f])) @
         Enter_handleMounted this #
         (if deferred then []
          else [Set_state this MOUNTED,
                E_dispatchLifecyclesEvent cont (name (objs w this)) LC_MOUNTED]) \<and>
       pending (mount this c i b hb w) =
         pending w @ (if deferred then [Cont_mounted this] else []) \<and>
       umdHookMount (objs (mount this c i b hb w) this) = umdHookMount (objs w this)) \<and>
    (\<forall>cid fin pr. execScripts_callback this cid fin pr w =
       (if cid < length (closures w) \<and> \<not> hasDispatchMountedEvent (closures w ! cid)
        then (handleMounted this (umdHookMountResult (closures w ! cid))
                (w\<lparr>closures := (closures w)
                     [cid := (closures w ! cid)\<lparr>hasDispatchMountedEvent := True\<rparr>]\<rparr>),
              Returned)
        else (w, Returned)))"
proof (intro conjI impI allI)
  show "closures (mount this c i b hb w) = closures w"
    using umd by (rule mount_umd_no_execScripts)
  show "E_execScripts r cid \<notin> set (drop (length (events w)) (events (mount this c i b hb w)))"
    for r cid
    using umd by (rule mount_umd_no_execScripts)
  show "execScripts_callback this cid fin pr w =
       (if cid < length (closures w) \<and> \<not> hasDispatchMountedEvent (closures w ! cid)
        then (handleMounted this (umdHookMountResult (closures w ! cid))
                (w\<lparr>closures := (closures w)
                     [cid := (closures w ! cid)\<lparr>hasDispatchMountedEvent := True\<rparr>]\<rparr>),
              Returned)
        else (w, Returned))" for cid fin pr
    using umd by (rule callback_umd)
next
  assume l: "loadSourceLevel (objs w this) = 2"
  have d: "(umd_hook_result (umdHookMount (objs w this)) hb = Promise) = deferred"
    by (simp add: umd_hook_result_def deferred_def split: option.splits hook_behaviour.splits)
  have m: "mount this c i b hb w =
     w\<lparr>objs := (objs w)(this := (adopted (objs w this) c i b)
               \<lparr>state := (if deferred then MOUNTING else MOUNTED)\<rparr>),
       pending := pending w @ (if deferred then [Cont_mounted this] else []),
       events := events w @
         [Enter_mount this,
          E_dispatchLifecyclesEvent cont (name (objs w this)) LC_BEFOREMOUNT,
          Set_state this MOUNTING,
          E_cloneContainer (html (source (objs w this))) cont False]
         @ (if sandBox (objs w this) = None then []
            else [E_sandBox_start br, E_rebuildUmdSnapshot])
         @ umd_hook_events (umdHookMount (objs w this)) hb (name (objs w this))
         @ Enter_handleMounted this #
           (if deferred then []
            else [Set_state this MOUNTED,
                  E_dispatchLifecyclesEvent cont (name (objs w this)) LC_MOUNTED])\<rparr>"
    unfolding mount_loaded_umd [OF l umd] d by (simp add: cont_def br_def)
  show "events (mount this c i b hb w) = events w @
         [Enter_mount this,
          E_dispatchLifecyclesEvent cont (name (objs w this)) LC_BEFOREMOUNT,
          Set_state this MOUNTING,
          E_cloneContainer (html (source (objs w this))) cont False] @
         (case sandBox (objs w this) of
            None \<Rightarrow> []
          | Some sb \<Rightarrow> [E_sandBox_start br, E_rebuildUmdSnapshot]) @
         (case umdHookMount (objs w this) of
            None \<Rightarrow> [E_logError ''an error occurred in the mount function'' (name (objs w this))]
          | Some f \<Rightarrow>
              (case hb of
                 Throws \<Rightarrow> [E_call_hook f,
                   E_logError ''an error occurred in the mount function'' (name (objs w this))]
               | Returns res \<Rightarrow> [E_call_hook f])) @
         Enter_handleMounted this #
         (if deferred then []
          else [Set_state this MOUNTED,
                E_dispatchLifecyclesEvent cont (name (objs w this)) LC_MOUNTED])"
    unfolding m by (simp add: umd_hook_events_def split: option.splits)
  show "pending (mount this c i b hb w) =
         pending w @ (if deferred then [Cont_mounted this] else [])"
    unfolding m by simp
  show "umdHookMount (objs (mount this c i b hb w) this) = umdHookMount (objs w this)"
    unfolding m by simp
qed

theorem mount_umd_branch_witness:
  "umdMode (objs world3 0) \<and> loadSourceLevel (objs world3 0) = 2 \<and>
   closures (mount 0 (Some 8) None None (Returns Promise) world3) = closures world3 \<and>
   events (mount 0 (Some 8) None None (Returns Promise) world3) = events world3 @
     [Enter_mount 0, E_dispatchLifecyclesEvent (Some 7) ''app1'' LC_BEFOREMOUNT,
      Set_state 0 MOUNTING, E_cloneContainer (Some 5) (Some 7) False, E_sandBox_start [],
      E_rebuildUmdSnapshot, E_call_hook 1, Enter_handleMounted 0] \<and>
   pending (mount 0 (Some 8) None None (Returns Promise) world3) = [Cont_mounted 0]"
proof -
  have h: "umdMode (objs world3 0)" "loadSourceLevel (objs world3 0) = 2"
    by (simp_all add: world3_eq no_app_def)
  have v: "container (objs world3 0) = Some 7" "name (objs world3 0) = ''app1''"
    "html (source (objs world3 0)) = Some 5" "baseroute (objs world3 0) = []"
    "sandBox (objs world3 0) = Some (SandBox ''app1'' ''http://a.test/index.html'' False)"
    "umdHookMount (objs world3 0) = Some 1" "pending world3 = []"
    by (simp_all add: world3_eq no_app_def)
  from mount_umd_branch [OF h(1), of "Some 8" None None "Returns Promise"] h(2)
  show ?thesis unfolding v using h by simp
qed

text \<open>
  C3 as stated, for every instance with \<^verbatim>\<open>umdMode\<close> true, fails when the
  resources are not loaded: after \<^verbatim>\<open>onLoadError\<close> on the mounted UMD app,
  \<^verbatim>\<open>mount\<close> stops at its guard, with no snapshot rebuilt and no hook called.
\<close>

theorem mount_umd_not_loaded_counterexample:
  "umdMode (objs (onLoadError 0 world3) 0) \<and>
   umdHookMount (objs (onLoadError 0 world3) 0) = Some 1 \<and>
   events (mount 0 (Some 8) None None (Returns NotPromise) (onLoadError 0 world3)) =
     events (onLoadError 0 world3) @ [Enter_mount 0, Set_state 0 LOADING_SOURCE_CODE]"
  by (simp add: onLoadError_def onerror_def Let_def world3_eq no_app_def mount_loading)

text \<open>
  C6. For an instance whose state is LOAD_SOURCE_ERROR, \<^verbatim>\<open>unmount(destroy)\<close> is
  \<^verbatim>\<open>unmount(true)\<close> whatever \<open>destroy\<close> is. When no promise of an unmount
  hook is awaited, the final teardown has run with the flag true when
  \<^verbatim>\<open>unmount\<close> returns, and the registry has lost exactly the entries under the
  name of the instance; otherwise the teardown with the flag true is registered on the
  promise, and when the promise settles, by fulfilment or by rejection (and whenever
  that continuation runs), the name is gone from the registry afterwards.
\<close>

theorem unmount_after_load_error:
  assumes "state (objs w this) = LOAD_SOURCE_ERROR"
  shows "unmount this destroy hb cnt w = unmount this True hb cnt w \<and>
    (\<not> (umdHookUnmount (objs w this) \<noteq> None \<and> hb = Returns Promise) \<longrightarrow>
       teardowns this True (fst (unmount this destroy hb cnt w)) = teardowns this True w + 1 \<and>
       appInstanceMap (fst (unmount this destroy hb cnt w)) =
         filter (\<lambda>(k, r). k \<noteq> name (objs w this)) (appInstanceMap w) \<and>
       name (objs w this) \<notin> set (getAllApps (fst (unmount this destroy hb cnt w)))) \<and>
    (umdHookUnmount (objs w this) \<noteq> None \<and> hb = Returns Promise \<longrightarrow>
       pending (fst (unmount this destroy hb cnt w)) = pending w @ [Cont_unmounted this True] \<and>
       name (objs w this) \<notin> set (getAllApps (fst
         (settle (length (pending w)) settled cnt2 (fst (unmount this destroy hb cnt w)))))) \<and>
    (\<forall>w' fulfilled cnt'.
       name (objs w' this) \<notin>
         set (getAllApps (fst (run_continuation (Cont_unmounted this True) fulfilled cnt' w'))))"
proof -
  have later: "name (objs w' this) \<notin>
      set (getAllApps (fst (run_continuation (Cont_unmounted this True) fulfilled cnt' w')))"
    for w' fulfilled cnt'
  proof (cases "fulfilled \<and> container (objs w' this) = None")
    case True
    then show ?thesis
      unfolding getAllApps_def
      by (auto simp add: run_continuation_unmounted registry_after_destroy
          simp del: run_continuation.simps)
  next
    case False
    then have "run_continuation (Cont_unmounted this True) fulfilled cnt' w' =
        actionsForUnmount this True cnt' w'"
      by (cases fulfilled)
        (auto simp add: run_continuation_unmounted simp del: run_continuation.simps)
    then show ?thesis
      unfolding getAllApps_def
      by (auto simp add: registry_after_destroy simp del: run_continuation.simps)
  qed
  show ?thesis
  proof (intro conjI impI allI)
  show "unmount this destroy hb cnt w = unmount this True hb cnt w"
    using assms by (simp add: unmount_eq)
next
  assume n: "\<not> (umdHookUnmount (objs w this) \<noteq> None \<and> hb = Returns Promise)"
  then have u: "unmount this destroy hb cnt w =
      actionsForUnmount this True cnt (before_teardown this hb w)"
    using assms by (auto simp add: unmount_eq)
  show "teardowns this True (fst (unmount this destroy hb cnt w)) = teardowns this True w + 1"
    unfolding u by (simp add: teardowns_actionsForUnmount teardowns_before_teardown)
  show r: "appInstanceMap (fst (unmount this destroy hb cnt w)) =
         filter (\<lambda>(k, r). k \<noteq> name (objs w this)) (appInstanceMap w)"
    unfolding u by (simp add: registry_after_destroy) (simp add: before_teardown_def)
  show "name (objs w this) \<notin> set (getAllApps (fst (unmount this destroy hb cnt w)))"
    unfolding getAllApps_def r by (rule not_in_filtered)
next
  assume p: "umdHookUnmount (objs w this) \<noteq> None \<and> hb = Returns Promise"
  then show "pending (fst (unmount this destroy hb cnt w)) = pending w @ [Cont_unmounted this True]"
    using assms unfolding unmount_eq by (simp add: before_teardown_def)
  have n: "name (objs (before_teardown this hb w) this) = name (objs w this)"
    by (simp add: before_teardown_def)
  have "name (objs (before_teardown this hb w) this) \<notin> set (getAllApps (fst
      (run_continuation (Cont_unmounted this True) settled cnt2 (before_teardown this hb w))))"
    by (rule later)
  then show "name (objs w this) \<notin> set (getAllApps (fst
         (settle (length (pending w)) settled cnt2 (fst (unmount this destroy hb cnt w)))))"
    unfolding unmount_deferred [OF p] n using assms by simp
next
  fix w' fulfilled cnt'
  show "name (objs w' this) \<notin>
         set (getAllApps (fst (run_continuation (Cont_unmounted this True) fulfilled cnt' w')))"
    by (rule later)
  qed
qed

theorem unmount_after_load_error_witness:
  "state (objs (onLoadError 0 world1) 0) = LOAD_SOURCE_ERROR \<and>
   getAllApps (onLoadError 0 world1) = [''app1''] \<and>
   unmount 0 False (Returns NotPromise) 3 (onLoadError 0 world1) =
     unmount 0 True (Returns NotPromise) 3 (onLoadError 0 world1) \<and>
   getAllApps (fst (unmount 0 False (Returns NotPromise) 3 (onLoadError 0 world1))) = [] \<and>
   state (objs (onLoadError 0 world3) 0) = LOAD_SOURCE_ERROR \<and>
   umdHookUnmount (objs (onLoadError 0 world3) 0) = Some 2 \<and>
   pending (fst (unmount 0 False (Returns Promise) 3 (onLoadError 0 world3))) =
     [Cont_unmounted 0 True] \<and>
   ''app1'' \<notin> set (getAllApps (fst (run_continuation (Cont_unmounted 0 True) False 3
     (fst (unmount 0 False (Returns Promise) 3 (onLoadError 0 world3)))))) \<and>
   ''app1'' \<notin> set (getAllApps (fst (settle 0 True 3
     (fst (unmount 0 False (Returns Promise) 3 (onLoadError 0 world3))))))"
proof -
  let ?e1 = "onLoadError 0 world1" and ?e3 = "onLoadError 0 world3"
  have s1: "state (objs ?e1 0) = LOAD_SOURCE_ERROR" and h1: "umdHookUnmount (objs ?e1 0) = None"
    and n1: "name (objs ?e1 0) = ''app1''" and r1: "appInstanceMap ?e1 = [(''app1'', 0)]"
    by (simp_all add: onLoadError_eq world1_eq no_app_def)
  have s3: "state (objs ?e3 0) = LOAD_SOURCE_ERROR" and h3: "umdHookUnmount (objs ?e3 0) = Some 2"
    and p3: "pending ?e3 = []"
    by (simp_all add: onLoadError_eq world3_eq no_app_def)
  have n3: "name (objs (fst (unmount 0 False (Returns Promise) 3 ?e3)) 0) = ''app1''"
    by (simp add: unmount_eq h3 before_teardown_def) (simp add: onLoadError_eq world3_eq no_app_def)
  note t1 = unmount_after_load_error [OF s1, of False "Returns NotPromise" 3]
  note t3 = unmount_after_load_error [OF s3, of False "Returns Promise" 3,
      where settled = True and ?cnt2.0 = 3]
  have m3: "name (objs ?e3 0) = ''app1''"
    by (simp add: onLoadError_eq world3_eq no_app_def)
  from t1 have a: "unmount 0 False (Returns NotPromise) 3 ?e1 =
      unmount 0 True (Returns NotPromise) 3 ?e1"
    by blast
  have nd: "\<not> (umdHookUnmount (objs ?e1 0) \<noteq> None \<and> Returns NotPromise = Returns Promise)"
    using h1 by simp
  from t1 nd have b: "appInstanceMap (fst (unmount 0 False (Returns NotPromise) 3 ?e1)) =
         filter (\<lambda>(k, r). k \<noteq> name (objs ?e1 0)) (appInstanceMap ?e1)"
    by blast
  from b have b': "getAllApps (fst (unmount 0 False (Returns NotPromise) 3 ?e1)) = []"
    unfolding n1 r1 by (simp add: getAllApps_def)
  have dd: "umdHookUnmount (objs ?e3 0) \<noteq> None \<and> Returns Promise = Returns Promise"
    using h3 by simp
  from t3 dd have c: "pending (fst (unmount 0 False (Returns Promise) 3 ?e3)) =
      pending ?e3 @ [Cont_unmounted 0 True]"
    by blast
  from t3 dd have "name (objs ?e3 0) \<notin> set (getAllApps (fst
      (settle (length (pending ?e3)) True 3 (fst (unmount 0 False (Returns Promise) 3 ?e3)))))"
    by blast
  then have e: "''app1'' \<notin> set (getAllApps (fst
      (settle 0 True 3 (fst (unmount 0 False (Returns Promise) 3 ?e3)))))"
    unfolding m3 p3 by simp
  from t3 have "name (objs (fst (unmount 0 False (Returns Promise) 3 ?e3)) 0) \<notin>
      set (getAllApps (fst (run_continuation (Cont_unmounted 0 True) False 3
        (fst (unmount 0 False (Returns Promise) 3 ?e3)))))"
    by blast
  then have d: "''app1'' \<notin> set (getAllApps (fst (run_continuation (Cont_unmounted 0 True) False 3
        (fst (unmount 0 False (Returns Promise) 3 ?e3)))))"
    unfolding n3 .
  from s1 r1 a b' s3 h3 c p3 d e show ?thesis by (simp add: getAllApps_def)
qed

text \<open>
  C7. A UMD unmount hook that throws is logged and \<^verbatim>\<open>unmount\<close> goes on to the
  notification of the sub-app and into the final teardown. Unless the hook returned a
  promise, \<^verbatim>\<open>unmount\<close> enters \<^verbatim>\<open>actionsForUnmount\<close> exactly once, with
  the flag \<open>destroy\<close> (true after a load error). When the hook returned a promise, the
  teardown with that flag is registered on it: the rejection continuation is
  \<^verbatim>\<open>actionsForUnmount\<close> with that flag, the fulfilment continuation is the
  same call (followed by the rejection continuation if it raises), so when the promise
  settles the teardown is entered either way.
\<close>

theorem unmount_hook_failure_keeps_teardown:
  fixes w :: world and this :: ref and destroy :: bool and d :: bool
  defines "d \<equiv> (state (objs w this) = LOAD_SOURCE_ERROR \<or> destroy)"
  shows "(umdHookUnmount (objs w this) = Some f \<and> hb = Throws \<longrightarrow>
       (\<exists>rest. events (fst (unmount this destroy hb cnt w)) = events w @
          [Set_state this UNMOUNT, E_call_hook f,
           E_logError ''an error occurred in the unmount function'' (name (objs w this)),
           E_dispatchCustomEventToMicroApp ''unmount'' (name (objs w this)) None,
           Enter_actionsForUnmount this d] @ rest)) \<and>
    (\<not> (umdHookUnmount (objs w this) \<noteq> None \<and> hb = Returns Promise) \<longrightarrow>
       teardowns this d (fst (unmount this destroy hb cnt w)) = teardowns this d w + 1 \<and>
       pending (fst (unmount this destroy hb cnt w)) = pending w) \<and>
    (umdHookUnmount (objs w this) \<noteq> None \<and> hb = Returns Promise \<longrightarrow>
       teardowns this d (fst (unmount this destroy hb cnt w)) = teardowns this d w \<and>
       pending (fst (unmount this destroy hb cnt w)) = pending w @ [Cont_unmounted this d] \<and>
       teardowns this d w < teardowns this d (fst
         (settle (length (pending w)) settled cnt2 (fst (unmount this destroy hb cnt w))))) \<and>
    (\<forall>w' cnt'.
       run_continuation (Cont_unmounted this d) False cnt' w' = actionsForUnmount this d cnt' w' \<and>
       run_continuation (Cont_unmounted this d) True cnt' w' =
         (if snd (actionsForUnmount this d cnt' w') = Returned
          then actionsForUnmount this d cnt' w'
          else actionsForUnmount this d cnt' (fst (actionsForUnmount this d cnt' w'))) \<and>
       teardowns this d w' <
         teardowns this d (fst (run_continuation (Cont_unmounted this d) False cnt' w')) \<and>
       teardowns this d w' <
         teardowns this d (fst (run_continuation (Cont_unmounted this d) True cnt' w')))"
proof -
  have t: "run_continuation (Cont_unmounted this d) True cnt' w' =
         (if snd (actionsForUnmount this d cnt' w') = Returned
          then actionsForUnmount this d cnt' w'
          else actionsForUnmount this d cnt' (fst (actionsForUnmount this d cnt' w')))"
    for w' cnt'
    by (cases "actionsForUnmount this d cnt' w'"; cases "snd (actionsForUnmount this d cnt' w')")
      simp_all
  have later: "teardowns this d w' <
      teardowns this d (fst (run_continuation (Cont_unmounted this d) fulfilled cnt' w'))"
    for w' fulfilled cnt'
  proof (cases fulfilled)
    case True
    then have f: "fulfilled = True" by simp
    show ?thesis unfolding f t by (simp add: teardowns_actionsForUnmount)
  next
    case False
    then show ?thesis by (simp add: teardowns_actionsForUnmount)
  qed
  show ?thesis
  proof (intro conjI impI allI)
  assume a: "umdHookUnmount (objs w this) = Some f \<and> hb = Throws"
  then have "events (fst (unmount this destroy hb cnt w)) = events w @
          [Set_state this UNMOUNT, E_call_hook f,
           E_logError ''an error occurred in the unmount function'' (name (objs w this)),
           E_dispatchCustomEventToMicroApp ''unmount'' (name (objs w this)) None,
           Enter_actionsForUnmount this d] @
          tl (teardown_events this d cnt (objs (before_teardown this hb w) this))"
    by (simp add: unmount_eq actionsForUnmount_eq d_def)
      (simp add: before_teardown_def unmount_hook_events_def teardown_events_def)
  then show "\<exists>rest. events (fst (unmount this destroy hb cnt w)) = events w @
          [Set_state this UNMOUNT, E_call_hook f,
           E_logError ''an error occurred in the unmount function'' (name (objs w this)),
           E_dispatchCustomEventToMicroApp ''unmount'' (name (objs w this)) None,
           Enter_actionsForUnmount this d] @ rest" ..
next
  assume n: "\<not> (umdHookUnmount (objs w this) \<noteq> None \<and> hb = Returns Promise)"
  then have u: "unmount this destroy hb cnt w =
      actionsForUnmount this d cnt (before_teardown this hb w)"
    by (auto simp add: unmount_eq d_def)
  show "teardowns this d (fst (unmount this destroy hb cnt w)) = teardowns this d w + 1"
    unfolding u by (simp add: teardowns_actionsForUnmount teardowns_before_teardown)
  show "pending (fst (unmount this destroy hb cnt w)) = pending w"
    unfolding u by (simp add: actionsForUnmount_eq) (simp add: before_teardown_def)
next
  assume p: "umdHookUnmount (objs w this) \<noteq> None \<and> hb = Returns Promise"
  then have u: "fst (unmount this destroy hb cnt w) =
      (before_teardown this hb w)\<lparr>pending := pending w @ [Cont_unmounted this d]\<rparr>"
    by (simp add: unmount_eq d_def)
  show "teardowns this d (fst (unmount this destroy hb cnt w)) = teardowns this d w"
    unfolding u using teardowns_before_teardown [of this d hb w] by (simp add: teardowns_def)
  show "pending (fst (unmount this destroy hb cnt w)) = pending w @ [Cont_unmounted this d]"
    unfolding u by simp
  from later [of "before_teardown this hb w" settled cnt2]
  show "teardowns this d w < teardowns this d (fst
         (settle (length (pending w)) settled cnt2 (fst (unmount this destroy hb cnt w))))"
    unfolding unmount_deferred [OF p] d_def teardowns_before_teardown .
next
  fix w' cnt'
  show "run_continuation (Cont_unmounted this d) False cnt' w' = actionsForUnmount this d cnt' w'"
    by simp
  show "run_continuation (Cont_unmounted this d) True cnt' w' =
         (if snd (actionsForUnmount this d cnt' w') = Returned
          then actionsForUnmount this d cnt' w'
          else actionsForUnmount this d cnt' (fst (actionsForUnmount this d cnt' w')))"
    by (rule t)
  show "teardowns this d w' <
         teardowns this d (fst (run_continuation (Cont_unmounted this d) False cnt' w'))"
    by (rule later)
  show "teardowns this d w' <
         teardowns this d (fst (run_continuation (Cont_unmounted this d) True cnt' w'))"
    by (rule later)
  qed
qed

theorem unmount_hook_failure_keeps_teardown_witness:
  "umdHookUnmount (objs world3 0) = Some 2 \<and>
   E_logError ''an error occurred in the unmount function'' ''app1'' \<in>
     set (events (fst (unmount 0 False Throws 3 world3))) \<and>
   teardowns 0 False (fst (unmount 0 False Throws 3 world3)) = 1 \<and>
   teardowns 0 False (fst (unmount 0 False (Returns Promise) 3 world3)) = 0 \<and>
   pending (fst (unmount 0 False (Returns Promise) 3 world3)) = [Cont_unmounted 0 False] \<and>
   0 < teardowns 0 False (fst (run_continuation (Cont_unmounted 0 False) True 3
         (fst (unmount 0 False (Returns Promise) 3 world3)))) \<and>
   0 < teardowns 0 False (fst (run_continuation (Cont_unmounted 0 False) False 3
         (fst (unmount 0 False (Returns Promise) 3 world3)))) \<and>
   0 < teardowns 0 False (fst (settle 0 True 3
         (fst (unmount 0 False (Returns Promise) 3 world3))))"
proof -
  let ?p = "fst (unmount 0 False (Returns Promise) 3 world3)"
  have h: "umdHookUnmount (objs world3 0) = Some 2" and s: "state (objs world3 0) = MOUNTED"
    and n: "name (objs world3 0) = ''app1''" and p: "pending world3 = []"
    and t0: "teardowns 0 False world3 = 0"
    by (simp_all add: world3_eq no_app_def teardowns_def)
  have d: "(state (objs world3 0) = LOAD_SOURCE_ERROR \<or> False) = False"
    using s by simp
  note t1 = unmount_hook_failure_keeps_teardown [of world3 0 2 Throws False 3, unfolded d]
  note t2 = unmount_hook_failure_keeps_teardown [of world3 0 2 "Returns Promise" False 3,
      where settled = True and ?cnt2.0 = 3, unfolded d]
  from t1 h obtain rest where "events (fst (unmount 0 False Throws 3 world3)) = events world3 @
          [Set_state 0 UNMOUNT, E_call_hook 2,
           E_logError ''an error occurred in the unmount function'' (name (objs world3 0)),
           E_dispatchCustomEventToMicroApp ''unmount'' (name (objs world3 0)) None,
           Enter_actionsForUnmount 0 False] @ rest"
    by blast
  then have a: "E_logError ''an error occurred in the unmount function'' ''app1'' \<in>
     set (events (fst (unmount 0 False Throws 3 world3)))"
    unfolding n by simp
  have "\<not> (umdHookUnmount (objs world3 0) \<noteq> None \<and> Throws = Returns Promise)" by simp
  with t1 have "teardowns 0 False (fst (unmount 0 False Throws 3 world3)) =
      teardowns 0 False world3 + 1"
    by blast
  with t0 have b: "teardowns 0 False (fst (unmount 0 False Throws 3 world3)) = 1" by simp
  have "umdHookUnmount (objs world3 0) \<noteq> None \<and> Returns Promise = Returns Promise"
    using h by simp
  with t2 have "teardowns 0 False ?p = teardowns 0 False world3 \<and>
       pending ?p = pending world3 @ [Cont_unmounted 0 False] \<and>
       teardowns 0 False world3 <
         teardowns 0 False (fst (settle (length (pending world3)) True 3 ?p))"
    by blast
  then have g: "0 < teardowns 0 False (fst (settle 0 True 3 ?p))"
    unfolding p by simp
  from \<open>teardowns 0 False ?p = teardowns 0 False world3 \<and>
       pending ?p = pending world3 @ [Cont_unmounted 0 False] \<and>
       teardowns 0 False world3 <
         teardowns 0 False (fst (settle (length (pending world3)) True 3 ?p))\<close> t0 p
  have c: "teardowns 0 False ?p = 0" "pending ?p = [Cont_unmounted 0 False]"
    by simp_all
  from t2 have "teardowns 0 False ?p <
         teardowns 0 False (fst (run_continuation (Cont_unmounted 0 False) False 3 ?p)) \<and>
       teardowns 0 False ?p <
         teardowns 0 False (fst (run_continuation (Cont_unmounted 0 False) True 3 ?p))"
    by blast
  with c have e: "0 < teardowns 0 False (fst (run_continuation (Cont_unmounted 0 False) True 3 ?p))"
    "0 < teardowns 0 False (fst (run_continuation (Cont_unmounted 0 False) False 3 ?p))"
    by simp_all
  from h a b c e g show ?thesis by blast
qed




text \<open>
  C9. For an instance whose container is not \<^verbatim>\<open>null\<close>,
  \<^verbatim>\<open>mount(container2, inline, baseroute)\<close> leaves the container as it is,
  whatever \<open>container2\<close> is and whichever branch \<^verbatim>\<open>mount\<close> then takes,
  while \<^verbatim>\<open>inline\<close> and \<^verbatim>\<open>baseroute\<close> take the value of the argument
  when one is given and keep their value otherwise. No other instance is changed.
\<close>

theorem mount_container_frame:
  "container (objs w this) = Some c \<Longrightarrow>
     container (objs (mount this container2 inline2 baseroute2 hb w) this) = Some c \<and>
     inline (objs (mount this container2 inline2 baseroute2 hb w) this) =
       (case inline2 of None \<Rightarrow> inline (objs w this) | Some v \<Rightarrow> v) \<and>
     baseroute (objs (mount this container2 inline2 baseroute2 hb w) this) =
       (case baseroute2 of None \<Rightarrow> baseroute (objs w this) | Some s \<Rightarrow> s) \<and>
     (\<forall>r. r \<noteq> this \<longrightarrow> objs (mount this container2 inline2 baseroute2 hb w) r = objs w r)"
  by (simp add: mount_objs)

theorem mount_container_frame_witness:
  "container (objs world1 0) = Some 7 \<and>
   container (objs (mount 0 (Some 9) (Some True) (Some ''/base'') Throws world1) 0) = Some 7 \<and>
   inline (objs (mount 0 (Some 9) (Some True) (Some ''/base'') Throws world1) 0) = True \<and>
   baseroute (objs (mount 0 (Some 9) (Some True) (Some ''/base'') Throws world1) 0) = ''/base''"
proof -
  have c: "container (objs world1 0) = Some 7"
    by (simp add: world1_eq)
  from mount_container_frame [OF c, of "Some 9" "Some True" "Some ''/base''" Throws] c
  show ?thesis by simp
qed

text \<open>
  C10. A name is in the result of \<^verbatim>\<open>getActiveApps\<close> exactly when the registry
  holds under it an instance whose state is not UNMOUNT and that is not a prefetch;
  and with the keys of the registry distinct, as in a \<^verbatim>\<open>Map\<close>, the result
  is the list of all registered names in registry order restricted to those instances. A
  registered prefetch instance stays out of it after any number of
  \<^verbatim>\<open>onLoad\<close> calls on it, and \<^verbatim>\<open>getAllApps\<close> returns every key of the
  registry whatever the state.
\<close>

theorem getActiveApps_getAllApps:
  "(n \<in> set (getActiveApps w) \<longleftrightarrow>
      (\<exists>app. (n, app) \<in> set (appInstanceMap w) \<and> getAppState app w \<noteq> UNMOUNT \<and>
             \<not> isPrefetch (objs w app))) \<and>
   (distinct (map fst (appInstanceMap w)) \<longrightarrow>
      getActiveApps w =
        filter (\<lambda>n. case map_of (appInstanceMap w) n of
                      None \<Rightarrow> False
                    | Some app \<Rightarrow> getAppState app w \<noteq> UNMOUNT \<and> \<not> isPrefetch (objs w app))
          (getAllApps w)) \<and>
   (distinct (map fst (appInstanceMap w)) \<and> (n, app) \<in> set (appInstanceMap w) \<and>
    isPrefetch (objs w app) \<longrightarrow>
      n \<notin> set (getActiveApps (onLoads app hs w))) \<and>
   getAllApps w = map fst (appInstanceMap w)"
proof (intro conjI impI)
  show "n \<in> set (getActiveApps w) \<longleftrightarrow>
      (\<exists>app. (n, app) \<in> set (appInstanceMap w) \<and> getAppState app w \<noteq> UNMOUNT \<and>
             \<not> isPrefetch (objs w app))"
    by (force simp add: getActiveApps_def)
next
  assume "distinct (map fst (appInstanceMap w))"
  from active_filter [OF this, of "\<lambda>app. getAppState app w \<noteq> UNMOUNT \<and> \<not> isPrefetch (objs w app)"]
  show "getActiveApps w =
        filter (\<lambda>n. case map_of (appInstanceMap w) n of
                      None \<Rightarrow> False
                    | Some app \<Rightarrow> getAppState app w \<noteq> UNMOUNT \<and> \<not> isPrefetch (objs w app))
          (getAllApps w)"
    by (simp add: getActiveApps_def getAllApps_def eq_commute [of UNMOUNT])
next
  assume a: "distinct (map fst (appInstanceMap w)) \<and> (n, app) \<in> set (appInstanceMap w) \<and>
    isPrefetch (objs w app)"
  have u: "r = app" if "(n, r) \<in> set (appInstanceMap w)" for r
    using a that eq_key_imp_eq_value [of "appInstanceMap w" n r app] by simp
  show "n \<notin> set (getActiveApps (onLoads app hs w))"
  proof
    assume "n \<in> set (getActiveApps (onLoads app hs w))"
    then obtain r where r: "(n, r) \<in> set (appInstanceMap w)"
        and p: "\<not> isPrefetch (objs (onLoads app hs w) r)"
      by (auto simp add: getActiveApps_def onLoads_appInstanceMap)
    from u [OF r] p a show False by (simp add: onLoads_isPrefetch)
  qed
next
  show "getAllApps w = map fst (appInstanceMap w)" by (simp add: getAllApps_def)
qed

theorem getActiveApps_getAllApps_witness:
  "distinct (map fst (appInstanceMap world2)) \<and> (''app2'', 1) \<in> set (appInstanceMap world2) \<and>
   isPrefetch (objs world2 1) \<and>
   ''app2'' \<notin> set (getActiveApps (onLoads 1 [(5, Throws), (5, Throws)] world2)) \<and>
   getActiveApps world2 = [''app1''] \<and> getAllApps world2 = [''app1'', ''app2'']"
  using getActiveApps_getAllApps [of "''app2''" world2 1 "[(5, Throws), (5, Throws)]"]
  by (simp add: world2_eq getActiveApps_def getAllApps_def getAppState_def no_app_def)

section \<open>Properties of the router glue\<close>

text \<open>
  C4. \<^verbatim>\<open>clearRouteStateFromURL\<close> with \<open>keepRouteState\<close> true returns the location
  object as it was given; with \<open>keepRouteState\<close> false the location is what
  \<^verbatim>\<open>updateLocation\<close> makes of it for the path
  \<open>pathname + search + hash\<close> of \<^verbatim>\<open>createURL(url)\<close>. In both cases the browser
  is the one left by \<^verbatim>\<open>removeStateAndPathFromBrowser\<close>, that is, by
  \<^verbatim>\<open>updateBrowserURL\<close> with the state that \<^verbatim>\<open>removeMicroState\<close> returns
  and the path that \<^verbatim>\<open>removeMicroPathFromURL\<close> returns for the app.
\<close>

theorem clearRouteStateFromURL_location_and_browser:
  "fst (clearRouteStateFromURL I appName url' True (loc, b)) = loc \<and>
   fst (clearRouteStateFromURL I appName url' False (loc, b)) =
     updateLocation I appName
       (pathname (createURL I url') @ search (createURL I url') @ hash (createURL I url'))
       url' loc \<and>
   snd (clearRouteStateFromURL I appName url' keepRouteState (loc, b)) =
     removeStateAndPathFromBrowser I appName url' b \<and>
   removeStateAndPathFromBrowser I appName url' b =
     updateBrowserURL I (removeMicroState I appName (history_state b) url')
       (removeMicroPathFromURL I appName b) b"
  by (simp add: clearRouteStateFromURL_def removeStateAndPathFromBrowser_def Let_def)

theorem clearRouteStateFromURL_location_and_browser_witness:
  "fst (clearRouteStateFromURL example_imports ''app1'' ''/index.html'' True
     (home, \<lparr> location_href = ''?app1=/home'',
              history_state = [(''app1'', ''?app1=/home''), (''app2'', ''/x'')] \<rparr>)) = home \<and>
   fst (clearRouteStateFromURL example_imports ''app1'' ''/index.html'' False
     (home, \<lparr> location_href = ''?app1=/home'',
              history_state = [(''app1'', ''?app1=/home''), (''app2'', ''/x'')] \<rparr>)) =
     \<lparr> pathname = ''/index.html'', search = [], hash = [] \<rparr> \<and>
   snd (clearRouteStateFromURL example_imports ''app1'' ''/index.html'' True
     (home, \<lparr> location_href = ''?app1=/home'',
              history_state = [(''app1'', ''?app1=/home''), (''app2'', ''/x'')] \<rparr>)) =
     \<lparr> location_href = [], history_state = [(''app2'', ''/x'')] \<rparr>"
  using clearRouteStateFromURL_location_and_browser [of example_imports "''app1''"
      "''/index.html''" home
      "\<lparr> location_href = ''?app1=/home'',
         history_state = [(''app1'', ''?app1=/home''), (''app2'', ''/x'')] \<rparr>" True]
  by (simp add: example_imports_def split_path_def)

text \<open>
  C5. If \<^verbatim>\<open>getMicroPathFromURL\<close> finds a segment for the app in the browser
  URL, a string that is not empty, \<^verbatim>\<open>initRouteStateWithURL\<close> decodes it into
  the location object by \<^verbatim>\<open>updateLocation\<close> and leaves the browser as it is.
  Otherwise, when the result is \<^verbatim>\<open>null\<close> or the empty string, the location
  object is left as it is and the browser is updated from it, by
  \<^verbatim>\<open>updateBrowserURLWithLocation\<close>: with the full path of
  \<^verbatim>\<open>setMicroPathToURL\<close> and the state of \<^verbatim>\<open>setMicroState\<close>.
\<close>

theorem initRouteStateWithURL_import_or_export:
  "(getMicroPathFromURL I appName b = Some p \<and> p \<noteq> [] \<longrightarrow>
      initRouteStateWithURL I appName url' (loc, b) = (updateLocation I appName p url' loc, b)) \<and>
   (getMicroPathFromURL I appName b = None \<or> getMicroPathFromURL I appName b = Some [] \<longrightarrow>
      initRouteStateWithURL I appName url' (loc, b) =
        updateBrowserURLWithLocation I appName url' (loc, b)) \<and>
   updateBrowserURLWithLocation I appName url' (loc, b) =
     (loc, updateBrowserURL I
             (setMicroState I appName (history_state b) url'
                (searchHash (setMicroPathToURL I appName loc b)))
             (fullPath (setMicroPathToURL I appName loc b)) b)"
  by (auto simp add: initRouteStateWithURL_def updateBrowserURLWithLocation_def Let_def)

theorem initRouteStateWithURL_import_or_export_witness:
  "getMicroPathFromURL example_imports ''app1''
     \<lparr> location_href = ''?app1=/detail?id=5'', history_state = [] \<rparr> = Some ''/detail?id=5'' \<and>
   initRouteStateWithURL example_imports ''app1'' ''/index.html''
     (home, \<lparr> location_href = ''?app1=/detail?id=5'', history_state = [] \<rparr>) =
     (\<lparr> pathname = ''/detail'', search = ''?id=5'', hash = [] \<rparr>,
      \<lparr> location_href = ''?app1=/detail?id=5'', history_state = [] \<rparr>) \<and>
   getMicroPathFromURL example_imports ''app1''
     \<lparr> location_href = [], history_state = [] \<rparr> = None \<and>
   initRouteStateWithURL example_imports ''app1'' ''/index.html''
     (home, \<lparr> location_href = [], history_state = [] \<rparr>) =
     (home, \<lparr> location_href = ''?app1=/home'',
              history_state = [(''app1'', ''?app1=/home'')] \<rparr>)"
proof -
  let ?b1 = "\<lparr> location_href = ''?app1=/detail?id=5'',
                history_state = [] :: (string \<times> string) list \<rparr>"
  let ?b2 = "\<lparr> location_href = [], history_state = [] :: (string \<times> string) list \<rparr>"
  have g1: "getMicroPathFromURL example_imports ''app1'' ?b1 = Some ''/detail?id=5''"
    and g2: "getMicroPathFromURL example_imports ''app1'' ?b2 = None"
    by (simp_all add: example_imports_def)
  note t1 = initRouteStateWithURL_import_or_export [of example_imports "''app1''" ?b1
      "''/detail?id=5''" "''/index.html''" home]
  note t2 = initRouteStateWithURL_import_or_export [of example_imports "''app1''" ?b2
      "''/x''" "''/index.html''" home]
  from t1 g1 have a: "initRouteStateWithURL example_imports ''app1'' ''/index.html'' (home, ?b1) =
      (updateLocation example_imports ''app1'' ''/detail?id=5'' ''/index.html'' home, ?b1)"
    by blast
  from t2 g2 have b: "initRouteStateWithURL example_imports ''app1'' ''/index.html'' (home, ?b2) =
      updateBrowserURLWithLocation example_imports ''app1'' ''/index.html'' (home, ?b2)"
    by blast
  from t2 have c: "updateBrowserURLWithLocation example_imports ''app1'' ''/index.html''
      (home, ?b2) =
        (home, updateBrowserURL example_imports
                (setMicroState example_imports ''app1'' (history_state ?b2) ''/index.html''
                   (searchHash (setMicroPathToURL example_imports ''app1'' home ?b2)))
                (fullPath (setMicroPathToURL example_imports ''app1'' home ?b2)) ?b2)"
    by blast
  show ?thesis unfolding a b c g1 g2
    by (simp add: example_imports_def split_path_def home_def)
qed

end
